theory Spec2Isabelle
  imports Complex_Main "HOL-Library.Sublist"
begin

section \<open>Campus portal: approval workflow and AR marker projection\<close>

text \<open>
  The development embeds three parts of the repository:
  \<^item> the approval-decision processor (the edge function whose handler looks a token up in
    \<open>pending_approvals\<close> and writes the decision), with its in-memory rate limiter;
  \<^item> the approval-request issuer (\<open>supabase/functions/send-approval-email/index.ts\<close>);
  \<^item> the marker projection of \<open>src/components/ARView.tsx\<close>.

  Conventions. A JavaScript string is a \<open>string\<close>; one \<open>char\<close> stands for one UTF-16 code
  unit below 256. Clock readings (\<open>Date.now()\<close>) and \<open>created_at\<close> are integers, in
  milliseconds. JavaScript numbers of the AR code are real numbers. Everything a handler
  obtains from outside (clock, database and mail provider answers, the random token) is a
  field of an environment record passed to it, and every call it makes to the outside is
  appended to a trace.
\<close>

subsection \<open>Rate limiter of the decision processor\<close>

type_synonym rate_limiter = "string \<rightharpoonup> int list"

definition RATE_LIMIT_WINDOW_MS :: int where
  "RATE_LIMIT_WINDOW_MS = 60000"

definition MAX_REQUESTS_PER_WINDOW :: nat where
  "MAX_REQUESTS_PER_WINDOW = 10"

text \<open>\<open>rateLimiter.get(ip) || []\<close>: an array is truthy, so only a missing key gives \<open>[]\<close>.\<close>

definition requests_of :: "rate_limiter \<Rightarrow> string \<Rightarrow> int list" where
  "requests_of rl ip = (case rl ip of None \<Rightarrow> [] | Some ts \<Rightarrow> ts)"

definition recentRequests :: "int \<Rightarrow> int list \<Rightarrow> int list" where
  "recentRequests now requests = filter (\<lambda>t. now - t < RATE_LIMIT_WINDOW_MS) requests"

text \<open>\<open>checkRateLimit\<close> with the clock reading \<open>now\<close> and the map made explicit.\<close>

definition checkRateLimit :: "int \<Rightarrow> string \<Rightarrow> rate_limiter \<Rightarrow> bool \<times> rate_limiter" where
  "checkRateLimit now ip rl =
     (let recent = recentRequests now (requests_of rl ip) in
      if length recent \<ge> MAX_REQUESTS_PER_WINDOW then (False, rl)
      else (True, rl(ip \<mapsto> recent @ [now])))"

text \<open>A run of calls for one key, at the clock readings given, oldest first.\<close>

fun check_all :: "string \<Rightarrow> int list \<Rightarrow> rate_limiter \<Rightarrow> bool list \<times> rate_limiter" where
  "check_all ip [] rl = ([], rl)"
| "check_all ip (now # rest) rl =
     (case checkRateLimit now ip rl of
        (ok, rl') \<Rightarrow> (case check_all ip rest rl' of (oks, rl'') \<Rightarrow> (ok # oks, rl'')))"

text \<open>All readings of a list lie within one window of each other.\<close>

definition one_window :: "int list \<Rightarrow> bool" where
  "one_window ts = (\<forall>a \<in> set ts. \<forall>b \<in> set ts. b - a < RATE_LIMIT_WINDOW_MS)"

subsection \<open>JavaScript strings and JSON values\<close>

text \<open>
  White space as \<open>String.prototype.trim\<close> and the regular-expression class \<open>\s\<close> see it, for
  code units below 256: tab, line feed, vertical tab, form feed, carriage return, space and
  the no-break space.
\<close>

definition js_whitespace :: "char \<Rightarrow> bool" where
  "js_whitespace c = (c \<in> set [CHR 0x09, CHR 0x0A, CHR 0x0B, CHR 0x0C, CHR 0x0D, CHR 0x20, CHR 0xA0])"

definition trim :: "string \<Rightarrow> string" where
  "trim s = rev (dropWhile js_whitespace (rev (dropWhile js_whitespace s)))"

text \<open>\<open>s.split(',')[0]\<close>: the text before the first comma (all of \<open>s\<close> when there is none).\<close>

definition split_first :: "char \<Rightarrow> string \<Rightarrow> string" where
  "split_first sep s = takeWhile (\<lambda>c. c \<noteq> sep) s"

text \<open>\<open>s.replace(pat, rep)\<close> with a string pattern: the first occurrence only.\<close>

fun replace_first :: "string \<Rightarrow> string \<Rightarrow> string \<Rightarrow> string" where
  "replace_first pat rep [] = (if pat = [] then rep else [])"
| "replace_first pat rep (c # cs) =
     (if prefix pat (c # cs) then rep @ drop (length pat) (c # cs)
      else c # replace_first pat rep cs)"

text \<open>\<open>s.replace(/c/g, rep)\<close> for a one-character pattern: every occurrence.\<close>

definition replace_all :: "char \<Rightarrow> string \<Rightarrow> string \<Rightarrow> string" where
  "replace_all c rep s = concat (map (\<lambda>x. if x = c then rep else [x]) s)"

definition is_hex :: "char \<Rightarrow> bool" where
  "is_hex c = (let n = of_char c :: nat in
     (48 \<le> n \<and> n \<le> 57) \<or> (97 \<le> n \<and> n \<le> 102) \<or> (65 \<le> n \<and> n \<le> 70))"

text \<open>
  \<open>/^[0-9a-f]{8}-[0-9a-f]{4}-[0-9a-f]{4}-[0-9a-f]{4}-[0-9a-f]{12}$/i\<close>: the shape, position by
  position (\<open>True\<close> a hexadecimal digit of either case, \<open>False\<close> a dash).
\<close>

definition uuid_shape :: "bool list" where
  "uuid_shape = replicate 8 True @ [False] @ replicate 4 True @ [False] @ replicate 4 True
     @ [False] @ replicate 4 True @ [False] @ replicate 12 True"

definition uuidRegex_test :: "string \<Rightarrow> bool" where
  "uuidRegex_test s = list_all2 (\<lambda>hex c. if hex then is_hex c else c = CHR ''-'') uuid_shape s"

text \<open>
  \<open>/^[^\s@]+@[^\s@]+\.[^\s@]+$/\<close>: a non-empty local part, one \<open>@\<close>, and a domain with a dot
  that is neither its first nor its last character; no white space and no second \<open>@\<close>.
\<close>

definition emailRegex_test :: "string \<Rightarrow> bool" where
  "emailRegex_test s =
     (let ok = (\<lambda>c. \<not> js_whitespace c \<and> c \<noteq> CHR ''@'');
          local = takeWhile (\<lambda>c. c \<noteq> CHR ''@'') s;
          rest = dropWhile (\<lambda>c. c \<noteq> CHR ''@'') s
      in local \<noteq> [] \<and> list_all ok local \<and>
         (case rest of [] \<Rightarrow> False
          | _ # domain \<Rightarrow> list_all ok domain \<and> CHR ''.'' \<in> set (butlast (tl domain))))"

text \<open>
  A parsed JSON value. The payload of a number is never inspected by the handlers.
  An object keeps its members in the order of the text.
\<close>

datatype json =
    JNull
  | JBool bool
  | JNum real
  | JStr string
  | JArr "json list"
  | JObj "(string \<times> json) list"

text \<open>
  Property read \<open>v.k\<close> on a non-null value; \<open>None\<close> is \<open>undefined\<close>. \<open>JSON.parse\<close> keeps the last
  of several members with one name. None of the names the handlers read is a property of a
  string, number, boolean or array.
\<close>

fun js_get :: "json \<Rightarrow> string \<Rightarrow> json option" where
  "js_get (JObj members) k = map_of (rev members) k"
| "js_get _ k = None"

subsection \<open>Requests, responses and the stored data\<close>

text \<open>
  A request: its method, its headers (names in lower case, as \<open>Headers.get\<close> compares them)
  and the result of \<open>req.json()\<close>, \<open>None\<close> when that call throws.
\<close>

record request =
  req_method :: string
  req_headers :: "string \<rightharpoonup> string"
  req_json :: "json option"

text \<open>A response; the body is the value given to \<open>JSON.stringify\<close>, \<open>None\<close> for a \<open>null\<close> body.\<close>

record response =
  status_code :: nat
  headers :: "(string \<times> string) list"
  body :: "json option"

definition corsHeaders :: "(string \<times> string) list" where
  "corsHeaders =
     [(''Access-Control-Allow-Origin'', ''*''),
      (''Access-Control-Allow-Headers'', ''authorization, x-client-info, apikey, content-type'')]"

definition preflight_response :: response where
  "preflight_response = \<lparr>status_code = 200, headers = corsHeaders, body = None\<rparr>"

definition json_response :: "nat \<Rightarrow> json \<Rightarrow> response" where
  "json_response st b =
     \<lparr>status_code = st, headers = corsHeaders @ [(''Content-Type'', ''application/json'')],
      body = Some b\<rparr>"

definition error_response :: "nat \<Rightarrow> string \<Rightarrow> response" where
  "error_response st msg = json_response st (JObj [(''error'', JStr msg)])"

datatype status = Pending | Approved | Rejected

datatype item_type = Shop | Club

datatype action = Approve | Reject

definition status_text :: "status \<Rightarrow> string" where
  "status_text s = (case s of Pending \<Rightarrow> ''pending'' | Approved \<Rightarrow> ''approved'' | Rejected \<Rightarrow> ''rejected'')"

definition item_type_text :: "item_type \<Rightarrow> string" where
  "item_type_text t = (case t of Shop \<Rightarrow> ''shop'' | Club \<Rightarrow> ''club'')"

text \<open>A row of \<open>pending_approvals\<close>.\<close>

record pending_approval =
  row_id :: string
  item_type :: item_type
  item_id :: string
  submitted_by :: string
  faculty_email :: string
  approval_token :: string
  status :: status
  created_at :: int

text \<open>A row of \<open>shops\<close> or \<open>clubs\<close>, with the columns the two handlers write.\<close>

record entity =
  entity_id :: string
  entity_status :: status
  entity_approval_token :: "string option"
  entity_submitted_by :: "string option"

record database =
  pending_approvals :: "pending_approval list"
  shops :: "entity list"
  clubs :: "entity list"

text \<open>\<open>.update(...).eq("id", key)\<close> on the table named: every row with that id, no error when none.\<close>

definition update_entities :: "string \<Rightarrow> string \<Rightarrow> (entity \<Rightarrow> entity) \<Rightarrow> database \<Rightarrow> database" where
  "update_entities tableName key f d =
     (let upd = map (\<lambda>e. if entity_id e = key then f e else e) in
      if tableName = ''shops'' then d\<lparr>shops := upd (shops d)\<rparr>
      else d\<lparr>clubs := upd (clubs d)\<rparr>)"

definition update_approvals :: "string \<Rightarrow> (pending_approval \<Rightarrow> pending_approval) \<Rightarrow> database \<Rightarrow> database" where
  "update_approvals key f d =
     d\<lparr>pending_approvals := map (\<lambda>r. if row_id r = key then f r else r) (pending_approvals d)\<rparr>"

text \<open>The outgoing message handed to the mail provider.\<close>

record email =
  mail_from :: string
  mail_to :: "string list"
  mail_subject :: string
  mail_html :: string

text \<open>The calls a handler makes to the database, the identity service and the mail provider.\<close>

datatype call =
    SelectPendingApproval string int
  | UpdatePendingApproval string status
  | UpdateItemStatus string string status
  | AuthGetUser string
  | InsertPendingApproval item_type string string string string
  | UpdateItemToken string string string string
  | SendEmail email

text \<open>What one invocation yields: the response, the calls made (in order) and the state left.\<close>

record 's outcome =
  reply :: response
  trace :: "call list"
  final :: 's


subsection \<open>The approval-decision processor\<close>

text \<open>
  \<open>validateInput\<close>: the error message of \<open>{valid: false, error}\<close> on the left, the checked token
  and action of a valid input on the right.
\<close>

definition validateInput :: "json option \<Rightarrow> json option \<Rightarrow> string + string \<times> action" where
  "validateInput token act =
     (case token of
        Some (JStr t) \<Rightarrow>
          if length t = 0 \<or> length t > 100 then Inl ''Invalid request''
          else if \<not> uuidRegex_test t then Inl ''Invalid request''
          else (case act of
                  Some (JStr a) \<Rightarrow>
                    if a = ''approve'' then Inr (t, Approve)
                    else if a = ''reject'' then Inr (t, Reject)
                    else Inl ''Invalid request''
                | _ \<Rightarrow> Inl ''Invalid request'')
      | _ \<Rightarrow> Inl ''Invalid request'')"

text \<open>What the processor reads from outside during one invocation.\<close>

record proc_env =
  now_limit :: int
  now_lookup :: int
  find_error :: bool
  update_approval_error :: bool
  update_item_error :: bool

record proc_state =
  rateLimiter :: rate_limiter
  db :: database

text \<open>\<open>req.headers.get('x-forwarded-for')?.split(',')[0]?.trim() || 'unknown'\<close>\<close>

definition clientIp :: "request \<Rightarrow> string" where
  "clientIp req =
     (case req_headers req ''x-forwarded-for'' of
        None \<Rightarrow> ''unknown''
      | Some h \<Rightarrow> (let ip = trim (split_first CHR '','' h) in if ip = [] then ''unknown'' else ip))"

definition EXPIRY_MS :: int where
  "EXPIRY_MS = 30 * 24 * 60 * 60 * 1000"

text \<open>The three filters of the lookup: token, status and age.\<close>

definition live_rows :: "string \<Rightarrow> int \<Rightarrow> pending_approval list \<Rightarrow> pending_approval list" where
  "live_rows token cutoff rows =
     filter (\<lambda>r. approval_token r = token \<and> status r = Pending \<and> created_at r \<ge> cutoff) rows"

text \<open>
  The answer \<open>{data, error}\<close> of a query ended by \<open>maybeSingle()\<close>: no row is \<open>data = null\<close>, one
  row is that row, several rows are an error.
\<close>

datatype 'a query_result = QueryError | QueryData "'a option"

definition maybeSingle :: "'a list \<Rightarrow> 'a query_result" where
  "maybeSingle rows =
     (case rows of [] \<Rightarrow> QueryData None | [r] \<Rightarrow> QueryData (Some r) | _ \<Rightarrow> QueryError)"

definition find_approval :: "proc_env \<Rightarrow> string \<Rightarrow> database \<Rightarrow> pending_approval query_result" where
  "find_approval env token d =
     (if find_error env then QueryError
      else maybeSingle (live_rows token (now_lookup env - EXPIRY_MS) (pending_approvals d)))"

definition processing_failed :: response where
  "processing_failed = error_response 500 ''Processing failed. Please try again.''"

definition too_many_requests :: response where
  "too_many_requests = error_response 429 ''Too many requests. Please try again later.''"

definition link_invalid :: response where
  "link_invalid = error_response 400 ''This approval link is invalid, expired, or already processed.''"

definition decision_made :: "item_type \<Rightarrow> status \<Rightarrow> response" where
  "decision_made t newStatus =
     json_response 200 (JObj [(''success'', JBool True),
       (''message'', JStr ((if t = Shop then ''Shop'' else ''Club'') @ '' has been '' @ status_text newStatus))])"

text \<open>
  The part of the handler after a row was found: the write to \<open>pending_approvals\<close>, then the
  write to the item's table. A write that reports an error leaves its table as it was.
\<close>

definition decide :: "proc_env \<Rightarrow> action \<Rightarrow> pending_approval \<Rightarrow> call list \<Rightarrow> proc_state \<Rightarrow> proc_state outcome" where
  "decide env act approval made st =
     (let newStatus = (if act = Approve then Approved else Rejected);
          c1 = UpdatePendingApproval (row_id approval) newStatus
      in if update_approval_error env
         then \<lparr>reply = processing_failed, trace = made @ [c1], final = st\<rparr>
         else
           let st1 = st\<lparr>db := update_approvals (row_id approval) (\<lambda>r. r\<lparr>status := newStatus\<rparr>) (db st)\<rparr>;
               tableName = (if item_type approval = Shop then ''shops'' else ''clubs'');
               c2 = UpdateItemStatus tableName (item_id approval) newStatus
           in if update_item_error env
              then \<lparr>reply = processing_failed, trace = made @ [c1, c2], final = st1\<rparr>
              else \<lparr>reply = decision_made (item_type approval) newStatus, trace = made @ [c1, c2],
                    final = st1\<lparr>db := update_entities tableName (item_id approval)
                                         (\<lambda>e. e\<lparr>entity_status := newStatus\<rparr>) (db st1)\<rparr>\<rparr>)"

text \<open>
  The handler. An exception inside \<open>try\<close> (the body is not JSON, or it is \<open>null\<close> and cannot be
  destructured) ends in the \<open>catch\<close> branch.
\<close>

definition process_approval :: "proc_env \<Rightarrow> request \<Rightarrow> proc_state \<Rightarrow> proc_state outcome" where
  "process_approval env req st =
     (if req_method req = ''OPTIONS'' then \<lparr>reply = preflight_response, trace = [], final = st\<rparr>
      else
        let checked = checkRateLimit (now_limit env) (clientIp req) (rateLimiter st);
            st0 = st\<lparr>rateLimiter := snd checked\<rparr>
        in if \<not> fst checked then \<lparr>reply = too_many_requests, trace = [], final = st0\<rparr>
           else (case req_json req of
              None \<Rightarrow> \<lparr>reply = processing_failed, trace = [], final = st0\<rparr>
            | Some JNull \<Rightarrow> \<lparr>reply = processing_failed, trace = [], final = st0\<rparr>
            | Some b \<Rightarrow>
                (case validateInput (js_get b ''token'') (js_get b ''action'') of
                   Inl e \<Rightarrow> \<lparr>reply = error_response 400 e, trace = [], final = st0\<rparr>
                 | Inr (token, act) \<Rightarrow>
                     (let sel = SelectPendingApproval token (now_lookup env - EXPIRY_MS) in
                      (case find_approval env token (db st0) of
                         QueryError \<Rightarrow> \<lparr>reply = processing_failed, trace = [sel], final = st0\<rparr>
                       | QueryData None \<Rightarrow> \<lparr>reply = link_invalid, trace = [sel], final = st0\<rparr>
                       | QueryData (Some approval) \<Rightarrow> decide env act approval [sel] st0)))))"

text \<open>A sequence of invocations, each with its own environment, one after the other.\<close>

fun process_all :: "(proc_env \<times> request) list \<Rightarrow> proc_state \<Rightarrow> proc_state" where
  "process_all [] st = st"
| "process_all ((env, req) # rest) st = process_all rest (final (process_approval env req st))"

text \<open>
  How a row may differ after some invocations from what it was before: not at all, or it was
  pending and only its status changed, to approved or rejected.
\<close>

definition decided_from :: "pending_approval \<Rightarrow> pending_approval \<Rightarrow> bool" where
  "decided_from r r' =
     (r' = r \<or> (status r = Pending \<and> (r' = r\<lparr>status := Approved\<rparr> \<or> r' = r\<lparr>status := Rejected\<rparr>)))"

text \<open>No row carrying the token can be matched: each is decided already or too old.\<close>

definition no_live_row :: "string \<Rightarrow> int \<Rightarrow> pending_approval list \<Rightarrow> bool" where
  "no_live_row token now rows =
     (\<forall>r \<in> set rows. approval_token r = token \<longrightarrow> status r \<noteq> Pending \<or> created_at r < now - EXPIRY_MS)"


subsection \<open>The approval-request issuer\<close>

record ApprovalEmailRequest =
  itemType :: item_type
  itemId :: string
  itemName :: string
  submitterName :: string
  submitterEmail :: string
  facultyEmail :: string
  description :: "string option"

text \<open>\<open>typeof v !== 'string' || bad v\<close> for a property that may be missing.\<close>

definition not_string_or :: "(string \<Rightarrow> bool) \<Rightarrow> json option \<Rightarrow> bool" where
  "not_string_or bad v = (case v of Some (JStr s) \<Rightarrow> bad s | _ \<Rightarrow> True)"

text \<open>\<open>v as string\<close>, used only where the checks have shown a string.\<close>

definition as_string :: "json option \<Rightarrow> string" where
  "as_string v = (case v of Some (JStr s) \<Rightarrow> s | _ \<Rightarrow> [])"

text \<open>\<open>!data || typeof data !== 'object'\<close>: only objects and arrays go on.\<close>

definition not_an_object :: "json \<Rightarrow> bool" where
  "not_an_object data = (case data of JObj _ \<Rightarrow> False | JArr _ \<Rightarrow> False | _ \<Rightarrow> True)"

definition validateApprovalEmailInput :: "json \<Rightarrow> string + ApprovalEmailRequest" where
  "validateApprovalEmailInput data =
     (let ty = js_get data ''itemType'';
          iid = js_get data ''itemId'';
          nm = js_get data ''itemName'';
          sn = js_get data ''submitterName'';
          se = js_get data ''submitterEmail'';
          fe = js_get data ''facultyEmail'';
          ds = js_get data ''description''
      in if not_an_object data then Inl ''Invalid request data''
         else if ty \<noteq> Some (JStr ''shop'') \<and> ty \<noteq> Some (JStr ''club'') then Inl ''Invalid item type''
         else if not_string_or (\<lambda>s. \<not> uuidRegex_test s) iid then Inl ''Invalid item ID''
         else if not_string_or (\<lambda>s. length s = 0 \<or> length s > 200) nm then Inl ''Invalid item name''
         else if not_string_or (\<lambda>s. length s = 0 \<or> length s > 200) sn then Inl ''Invalid submitter name''
         else if not_string_or (\<lambda>s. \<not> emailRegex_test s \<or> length s > 255) se then Inl ''Invalid submitter email''
         else if not_string_or (\<lambda>s. \<not> emailRegex_test s \<or> length s > 255) fe then Inl ''Invalid faculty email''
         else if ds \<noteq> None \<and> ds \<noteq> Some JNull \<and> not_string_or (\<lambda>s. length s > 2000) ds
           then Inl ''Invalid description''
         else Inr \<lparr>itemType = (if ty = Some (JStr ''shop'') then Shop else Club),
                   itemId = as_string iid, itemName = as_string nm, submitterName = as_string sn,
                   submitterEmail = as_string se, facultyEmail = as_string fe,
                   description = (case ds of Some (JStr s) \<Rightarrow> Some s | _ \<Rightarrow> None)\<rparr>)"

text \<open>\<open>sanitizeForHtml\<close>: five global replacements, the ampersand first.\<close>

definition sanitizeForHtml :: "string \<Rightarrow> string" where
  \<open>sanitizeForHtml str =
     replace_all (CHR 0x27) ''&#x27;''
       (replace_all (CHR 0x22) ''&quot;''
         (replace_all CHR ''>'' ''&gt;''
           (replace_all CHR ''<'' ''&lt;''
             (replace_all CHR ''&'' ''&amp;'' str))))\<close>

text \<open>The entity that stands for one character in HTML text, the character itself when it needs none.\<close>

definition html_entity :: "char \<Rightarrow> string" where
  \<open>html_entity c =
     (if c = CHR ''&'' then ''&amp;''
      else if c = CHR ''<'' then ''&lt;''
      else if c = CHR ''>'' then ''&gt;''
      else if c = CHR 0x22 then ''&quot;''
      else if c = CHR 0x27 then ''&#x27;''
      else [c])\<close>

text \<open>A text in which every character that needs an entity is replaced by it.\<close>

definition escape_html :: "string \<Rightarrow> string" where
  "escape_html s = concat (map html_entity s)"

definition markup_chars :: "char set" where
  "markup_chars = {CHR ''<'', CHR ''>'', CHR 0x22, CHR 0x27}"

text \<open>
  The \<open>html\<close> template literal of the message, line by line. The two glyphs of the buttons lie
  outside the range of \<open>char\<close> and are given by their UTF-8 bytes.
\<close>

definition email_html ::
  "item_type \<Rightarrow> string \<Rightarrow> string \<Rightarrow> string \<Rightarrow> string \<Rightarrow> string \<Rightarrow> string \<Rightarrow> string" where
  \<open>email_html kind safeItemName safeSubmitterName safeSubmitterEmail safeDescription
       approveUrl rejectUrl =
     ''\<newline>''
     @ ''          <div style="font-family: Arial, sans-serif; max-width: 600px; margin: 0 auto;">\<newline>''
     @ ''            <h1 style="color: #1a365d;">New ''
     @ (if kind = Shop then ''Shop'' else ''Club'')
     @ '' Submission</h1>\<newline>''
     @ ''            <p>Dear Faculty,</p>\<newline>''
     @ ''            <p>A new ''
     @ item_type_text kind
     @ '' has been submitted for approval on the MITS Campus Portal.</p>\<newline>''
     @ ''            \<newline>''
     @ ''            <div style="background: #f7fafc; padding: 20px; border-radius: 8px; margin: 20px 0;">\<newline>''
     @ ''              <h2 style="margin-top: 0; color: #2d3748;">''
     @ safeItemName
     @ ''</h2>\<newline>''
     @ ''              <p><strong>Submitted by:</strong> ''
     @ safeSubmitterName
     @ '' (''
     @ safeSubmitterEmail
     @ '')</p>\<newline>''
     @ ''              ''
     @ (if safeDescription \<noteq> [] then ''<p><strong>Description:</strong> '' @ safeDescription @ ''</p>'' else [])
     @ ''\<newline>''
     @ ''            </div>\<newline>''
     @ ''            \<newline>''
     @ ''            <p>Please review and take action:</p>\<newline>''
     @ ''            \<newline>''
     @ ''            <div style="margin: 30px 0;">\<newline>''
     @ ''              <a href="''
     @ approveUrl
     @ ''" style="background: #38a169; color: white; padding: 12px 24px; text-decoration: none; border-radius: 6px; margin-right: 10px;">\<newline>''
     @ ''                ''
     @ [CHR 0xE2, CHR 0x9C, CHR 0x93]
     @ '' Approve\<newline>''
     @ ''              </a>\<newline>''
     @ ''              <a href="''
     @ rejectUrl
     @ ''" style="background: #e53e3e; color: white; padding: 12px 24px; text-decoration: none; border-radius: 6px;">\<newline>''
     @ ''                ''
     @ [CHR 0xE2, CHR 0x9C, CHR 0x97]
     @ '' Reject\<newline>''
     @ ''              </a>\<newline>''
     @ ''            </div>\<newline>''
     @ ''            \<newline>''
     @ ''            <p style="color: #718096; font-size: 14px;">\<newline>''
     @ ''              If the buttons don''
     @ [CHR 0x27]
     @ ''t work, copy and paste these links:<br>\<newline>''
     @ ''              Approve: ''
     @ approveUrl
     @ ''<br>\<newline>''
     @ ''              Reject: ''
     @ rejectUrl
     @ ''\<newline>''
     @ ''            </p>\<newline>''
     @ ''            \<newline>''
     @ ''            <p style="color: #a0aec0; font-size: 12px; margin-top: 20px;">\<newline>''
     @ ''              This approval link will expire in 30 days.\<newline>''
     @ ''            </p>\<newline>''
     @ ''            \<newline>''
     @ ''            <hr style="border: none; border-top: 1px solid #e2e8f0; margin: 30px 0;">\<newline>''
     @ ''            <p style="color: #a0aec0; font-size: 12px;">MITS Campus Portal - Madhav Institute of Technology & Science, Gwalior</p>\<newline>''
     @ ''          </div>\<newline>''
     @ ''        ''\<close>

text \<open>What the issuer reads from outside during one invocation.\<close>

record issue_env =
  random_uuid :: string
  get_user :: "string \<Rightarrow> string option"
  insert_error :: bool
  inserted_id :: string
  inserted_at :: int
  update_error :: bool
  fetch_throws :: bool
  email_json_throws :: bool

definition DEFAULT_BASE_URL :: string where
  "DEFAULT_BASE_URL = ''https://36014776-bc14-4ae2-985e-9ec7a851b4ba.lovableproject.com''"

definition invalid_request :: response where
  "invalid_request = error_response 400 ''Invalid request''"

definition unauthorized :: response where
  "unauthorized = error_response 401 ''Unauthorized''"

definition request_failed :: response where
  "request_failed = error_response 500 ''Failed to process request. Please try again.''"

definition send_failed :: response where
  "send_failed = error_response 500 ''Failed to send approval email. Please try again.''"

definition success_response :: response where
  "success_response = json_response 200 (JObj [(''success'', JBool True)])"

text \<open>\<open>authHeader?.replace("Bearer ", "")\<close>\<close>

definition bearer_token :: "request \<Rightarrow> string option" where
  "bearer_token req = map_option (replace_first ''Bearer '' []) (req_headers req ''authorization'')"

text \<open>
  The identity lookup: \<open>getUser\<close> is called only for a non-empty token, and
  \<open>user?.id || null\<close> turns an empty id into \<open>null\<close>. The result is the user id and the calls made.
\<close>

definition resolve_user :: "issue_env \<Rightarrow> request \<Rightarrow> string option \<times> call list" where
  "resolve_user env req =
     (case bearer_token req of
        None \<Rightarrow> (None, [])
      | Some token \<Rightarrow>
          if token = [] then (None, [])
          else ((case get_user env token of None \<Rightarrow> None
                 | Some uid \<Rightarrow> if uid = [] then None else Some uid), [AuthGetUser token]))"

text \<open>\<open>req.headers.get("origin") || "https://..."\<close>\<close>

definition base_url :: "request \<Rightarrow> string" where
  "base_url req =
     (case req_headers req ''origin'' of None \<Rightarrow> DEFAULT_BASE_URL
      | Some h \<Rightarrow> if h = [] then DEFAULT_BASE_URL else h)"

text \<open>The message to the reviewer, composed from the validated request.\<close>

definition compose_email :: "string \<Rightarrow> string \<Rightarrow> ApprovalEmailRequest \<Rightarrow> email" where
  "compose_email baseUrl approvalToken d =
     (let approveUrl = baseUrl @ ''/approve?token='' @ approvalToken @ ''&action=approve'';
          rejectUrl = baseUrl @ ''/approve?token='' @ approvalToken @ ''&action=reject'';
          safeItemName = sanitizeForHtml (itemName d);
          safeSubmitterName = sanitizeForHtml (submitterName d);
          safeSubmitterEmail = sanitizeForHtml (submitterEmail d);
          safeDescription = (case description d of None \<Rightarrow> []
                             | Some t \<Rightarrow> if t = [] then [] else sanitizeForHtml t)
      in \<lparr>mail_from = ''MITS Campus Portal <onboarding@resend.dev>'',
          mail_to = [facultyEmail d],
          mail_subject = ''Approval Request: New '' @ (if itemType d = Shop then ''Shop'' else ''Club'')
                           @ '' - '' @ safeItemName,
          mail_html = email_html (itemType d) safeItemName safeSubmitterName safeSubmitterEmail
                        safeDescription approveUrl rejectUrl\<rparr>)"

text \<open>
  Modelled from the spec: the table definition of \<open>pending_approvals\<close> is not among the sources.
  The insert names five columns; the row stored has, besides them, an \<open>id\<close> and a \<open>created_at\<close>
  given by the database (read from the environment here) and the status \<open>pending\<close>, as the
  spec's data model has it for a row created by the issuer.
\<close>

definition issued_row :: "issue_env \<Rightarrow> ApprovalEmailRequest \<Rightarrow> string \<Rightarrow> pending_approval" where
  "issued_row env d userId =
     \<lparr>row_id = inserted_id env, item_type = itemType d, item_id = itemId d,
      submitted_by = userId, faculty_email = facultyEmail d,
      approval_token = random_uuid env, status = Pending, created_at = inserted_at env\<rparr>"

text \<open>
  The part of the handler after the caller was identified: insert the approval row, update
  the item (an error is only logged), send the message.
\<close>

definition issue :: "issue_env \<Rightarrow> request \<Rightarrow> ApprovalEmailRequest \<Rightarrow> string \<Rightarrow> call list \<Rightarrow> database \<Rightarrow> database outcome" where
  "issue env req d userId made dbase =
     (let approvalToken = random_uuid env;
          c1 = InsertPendingApproval (itemType d) (itemId d) userId (facultyEmail d) approvalToken
      in if insert_error env then \<lparr>reply = request_failed, trace = made @ [c1], final = dbase\<rparr>
         else
           let db1 = dbase\<lparr>pending_approvals := pending_approvals dbase @ [issued_row env d userId]\<rparr>;
               tableName = (if itemType d = Shop then ''shops'' else ''clubs'');
               c2 = UpdateItemToken tableName (itemId d) approvalToken userId;
               db2 = (if update_error env then db1
                      else update_entities tableName (itemId d)
                             (\<lambda>e. e\<lparr>entity_approval_token := Some approvalToken,
                                     entity_submitted_by := Some userId\<rparr>) db1);
               c3 = SendEmail (compose_email (base_url req) approvalToken d)
           in if fetch_throws env \<or> email_json_throws env
              then \<lparr>reply = send_failed, trace = made @ [c1, c2, c3], final = db2\<rparr>
              else \<lparr>reply = success_response, trace = made @ [c1, c2, c3], final = db2\<rparr>)"

text \<open>The handler: parse, validate, identify the caller, then the three steps above.\<close>

definition send_approval_email :: "issue_env \<Rightarrow> request \<Rightarrow> database \<Rightarrow> database outcome" where
  "send_approval_email env req dbase =
     (if req_method req = ''OPTIONS'' then \<lparr>reply = preflight_response, trace = [], final = dbase\<rparr>
      else (case req_json req of
         None \<Rightarrow> \<lparr>reply = send_failed, trace = [], final = dbase\<rparr>
       | Some rawBody \<Rightarrow>
           (case validateApprovalEmailInput rawBody of
              Inl e \<Rightarrow> \<lparr>reply = invalid_request, trace = [], final = dbase\<rparr>
            | Inr d \<Rightarrow>
                (case resolve_user env req of
                   (None, made) \<Rightarrow> \<lparr>reply = unauthorized, trace = made, final = dbase\<rparr>
                 | (Some userId, made) \<Rightarrow> issue env req d userId made dbase))))"


subsection \<open>The AR marker projection\<close>

text \<open>
  \<open>Math.atan2(y, x)\<close> on real numbers: the angle of the point \<open>(x, y)\<close>, in \<open>(-\<pi>, \<pi>]\<close>, and \<open>0\<close> at
  the origin.
\<close>

definition js_atan2 :: "real \<Rightarrow> real \<Rightarrow> real" where
  "js_atan2 y x =
     (if x > 0 then arctan (y / x)
      else if x < 0 then (if y \<ge> 0 then arctan (y / x) + pi else arctan (y / x) - pi)
      else if y > 0 then pi / 2
      else if y < 0 then - (pi / 2)
      else 0)"

text \<open>The remainder \<open>a % b\<close>: the quotient is rounded towards zero, the sign is that of \<open>a\<close>.\<close>

definition js_mod :: "real \<Rightarrow> real \<Rightarrow> real" where
  "js_mod a b = a - b * of_int (if a / b \<ge> 0 then \<lfloor>a / b\<rfloor> else \<lceil>a / b\<rceil>)"

definition getDistance :: "real \<Rightarrow> real \<Rightarrow> real \<Rightarrow> real \<Rightarrow> real" where
  "getDistance lat1 lon1 lat2 lon2 =
     (let R = 6371000;
          \<phi>1 = (lat1 * pi) / 180;
          \<phi>2 = (lat2 * pi) / 180;
          \<Delta>\<phi> = ((lat2 - lat1) * pi) / 180;
          \<Delta>lam = ((lon2 - lon1) * pi) / 180;
          a = sin (\<Delta>\<phi> / 2) * sin (\<Delta>\<phi> / 2) + cos \<phi>1 * cos \<phi>2 * sin (\<Delta>lam / 2) * sin (\<Delta>lam / 2);
          c = 2 * js_atan2 (sqrt a) (sqrt (1 - a))
      in R * c)"

definition getBearing :: "real \<Rightarrow> real \<Rightarrow> real \<Rightarrow> real \<Rightarrow> real" where
  "getBearing lat1 lon1 lat2 lon2 =
     (let \<phi>1 = (lat1 * pi) / 180;
          \<phi>2 = (lat2 * pi) / 180;
          \<Delta>lam = ((lon2 - lon1) * pi) / 180;
          y = sin \<Delta>lam * cos \<phi>2;
          x = cos \<phi>1 * sin \<phi>2 - sin \<phi>1 * cos \<phi>2 * cos \<Delta>lam;
          \<theta> = js_atan2 y x
      in js_mod ((\<theta> * 180) / pi + 360) 360)"

record CampusLocation =
  loc_id :: string
  loc_name :: string
  loc_category :: string
  latitude :: real
  longitude :: real
  loc_description :: "string option"

record marker =
  marker_x :: real
  marker_y :: real
  marker_distance :: real

text \<open>The angle between the target and the direction the device faces, adjusted once each way.\<close>

definition relativeAngle :: "real \<Rightarrow> real \<Rightarrow> real" where
  "relativeAngle bearing deviceOrientation =
     (let r0 = bearing - deviceOrientation;
          r1 = (if r0 < - 180 then r0 + 360 else r0)
      in if r1 > 180 then r1 - 360 else r1)"

text \<open>The vertical position, in percent; the marker is drawn with \<open>top: y%\<close>.\<close>

definition yPercent :: "real \<Rightarrow> real" where
  "yPercent distance = (let maxDistance = 500 in max 20 (min 80 (30 + (distance / maxDistance) * 40)))"

definition getMarkerPosition :: "(real \<times> real) option \<Rightarrow> real \<Rightarrow> CampusLocation \<Rightarrow> marker option" where
  "getMarkerPosition userLocation deviceOrientation location =
     (case userLocation of
        None \<Rightarrow> None
      | Some (ulat, ulon) \<Rightarrow>
          let bearing = getBearing ulat ulon (latitude location) (longitude location);
              distance = getDistance ulat ulon (latitude location) (longitude location);
              rel = relativeAngle bearing deviceOrientation
          in if \<bar>rel\<bar> > 60 then None
             else Some \<lparr>marker_x = 50 + (rel / 60) * 40, marker_y = yPercent distance,
                        marker_distance = distance\<rparr>)"


subsection \<open>Sample data\<close>

text \<open>A club submission whose submitter name is a script element, sent by a signed-in user.\<close>

definition sample_uuid :: string where
  "sample_uuid = ''123e4567-e89b-12d3-a456-426614174000''"

definition sample_submission :: json where
  "sample_submission = JObj
     [(''itemType'', JStr ''club''),
      (''itemId'', JStr ''0f8fad5b-d9cb-469f-a165-70867728950e''),
      (''itemName'', JStr ''Robotics & AI''),
      (''submitterName'', JStr ''<script>alert(1)</script>''),
      (''submitterEmail'', JStr ''eve@inst.edu''),
      (''facultyEmail'', JStr ''x@inst.edu'')]"

definition sample_data :: ApprovalEmailRequest where
  "sample_data =
     \<lparr>itemType = Club, itemId = ''0f8fad5b-d9cb-469f-a165-70867728950e'',
      itemName = ''Robotics & AI'', submitterName = ''<script>alert(1)</script>'',
      submitterEmail = ''eve@inst.edu'', facultyEmail = ''x@inst.edu'', description = None\<rparr>"

definition sample_issue_request :: request where
  "sample_issue_request =
     \<lparr>req_method = ''POST'',
      req_headers = [''authorization'' \<mapsto> ''Bearer session-1'', ''origin'' \<mapsto> ''https://portal.example''],
      req_json = Some sample_submission\<rparr>"

definition sample_issue_env :: issue_env where
  "sample_issue_env =
     \<lparr>random_uuid = sample_uuid,
      get_user = (\<lambda>t. if t = ''session-1'' then Some ''user-1'' else None),
      insert_error = False, inserted_id = ''row-1'', inserted_at = 1000,
      update_error = False, fetch_throws = False, email_json_throws = False\<rparr>"

definition sample_club :: entity where
  "sample_club =
     \<lparr>entity_id = ''0f8fad5b-d9cb-469f-a165-70867728950e'', entity_status = Pending,
      entity_approval_token = None, entity_submitted_by = None\<rparr>"

definition sample_database :: database where
  "sample_database = \<lparr>pending_approvals = [], shops = [], clubs = [sample_club]\<rparr>"


text \<open>A submission without an item id, and a request that carries no headers at all.\<close>

definition bad_submission :: json where
  "bad_submission = JObj [(''itemType'', JStr ''club''), (''itemName'', JStr [])]"

definition anonymous :: "json \<Rightarrow> request" where
  "anonymous b = \<lparr>req_method = ''POST'', req_headers = Map.empty, req_json = Some b\<rparr>"

text \<open>
  A decision request for the sample token, the processor's surroundings at a clock reading of
  3000000000 ms, and rows carrying the sample token: fresh and pending, already approved,
  and pending but 31 days old.
\<close>

definition decision_request :: "string \<Rightarrow> request" where
  "decision_request act =
     \<lparr>req_method = ''POST'',
      req_headers = [''x-forwarded-for'' \<mapsto> ''203.0.113.7, 10.0.0.1''],
      req_json = Some (JObj [(''token'', JStr sample_uuid), (''action'', JStr act)])\<rparr>"

definition sample_proc_env :: proc_env where
  "sample_proc_env =
     \<lparr>now_limit = 3000000000, now_lookup = 3000000000, find_error = False,
      update_approval_error = False, update_item_error = False\<rparr>"

definition sample_row :: pending_approval where
  "sample_row =
     \<lparr>row_id = ''row-1'', item_type = Club, item_id = ''0f8fad5b-d9cb-469f-a165-70867728950e'',
      submitted_by = ''user-1'', faculty_email = ''x@inst.edu'', approval_token = sample_uuid,
      status = Pending, created_at = 2999000000\<rparr>"

definition approved_row :: pending_approval where
  "approved_row = sample_row\<lparr>status := Approved\<rparr>"

definition expired_row :: pending_approval where
  "expired_row = sample_row\<lparr>created_at := 3000000000 - 31 * 24 * 60 * 60 * 1000\<rparr>"

definition state_with :: "pending_approval list \<Rightarrow> proc_state" where
  "state_with rows =
     \<lparr>rateLimiter = Map.empty, db = \<lparr>pending_approvals = rows, shops = [], clubs = [sample_club]\<rparr>\<rparr>"

text \<open>Two places: one on the equator at the prime meridian, one 0.0036 degrees north of it.\<close>

definition here :: CampusLocation where
  "here = \<lparr>loc_id = ''loc-1'', loc_name = ''Library'', loc_category = ''library'',
           latitude = 0, longitude = 0, loc_description = None\<rparr>"

definition north :: CampusLocation where
  "north = \<lparr>loc_id = ''loc-2'', loc_name = ''Sports Ground'', loc_category = ''sports'',
            latitude = 0.0036, longitude = 0, loc_description = None\<rparr>"

section \<open>Properties\<close>

subsection \<open>Rate limiter\<close>

lemma recent_all:
  "\<forall>t \<in> set xs. now - t < RATE_LIMIT_WINDOW_MS \<Longrightarrow> recentRequests now xs = xs"
  by (simp add: recentRequests_def)

lemma check_all_fill:
  "requests_of rl ip = xs \<Longrightarrow> length xs + length ts \<le> 10 \<Longrightarrow> one_window (xs @ ts) \<Longrightarrow>
   check_all ip ts rl = (replicate (length ts) True, if ts = [] then rl else rl(ip \<mapsto> xs @ ts))"
proof (induction ts arbitrary: rl xs)
  case Nil
  then show ?case by simp
next
  case (Cons now rest)
  have rec: "recentRequests now xs = xs"
    using Cons.prems(3) by (intro recent_all) (auto simp: one_window_def)
  have len: "length xs < 10" using Cons.prems(2) by simp
  have step: "checkRateLimit now ip rl = (True, rl(ip \<mapsto> xs @ [now]))"
    using rec len Cons.prems(1) by (simp add: checkRateLimit_def MAX_REQUESTS_PER_WINDOW_def)
  have r': "requests_of (rl(ip \<mapsto> xs @ [now])) ip = xs @ [now]"
    by (simp add: requests_of_def)
  have "check_all ip rest (rl(ip \<mapsto> xs @ [now])) =
     (replicate (length rest) True,
      if rest = [] then rl(ip \<mapsto> xs @ [now]) else (rl(ip \<mapsto> xs @ [now]))(ip \<mapsto> (xs @ [now]) @ rest))"
    using Cons.prems(2,3) by (intro Cons.IH[OF r']) auto
  then show ?case using step by auto
qed

text \<open>
  Claim C5. For one key: the first ten requests of a key with nothing recorded, all within one
  window, are each accepted and recorded; a request made while ten recorded readings lie within
  the trailing 60 seconds is rejected and nothing is recorded; a request made while fewer than
  ten do is accepted, and what is kept is the readings still in the window and the new one.
\<close>

theorem rate_limit_sliding_window:
  "(requests_of rl ip = [] \<and> ts \<noteq> [] \<and> length ts \<le> 10 \<and> one_window ts \<longrightarrow>
      check_all ip ts rl = (replicate (length ts) True, rl(ip \<mapsto> ts)))
   \<and> (length (recentRequests now (requests_of rl ip)) \<ge> 10 \<longrightarrow>
      checkRateLimit now ip rl = (False, rl))
   \<and> (length (recentRequests now (requests_of rl ip)) < 10 \<longrightarrow>
      checkRateLimit now ip rl = (True, rl(ip \<mapsto> recentRequests now (requests_of rl ip) @ [now])))"
proof (intro conjI impI)
  assume h: "requests_of rl ip = [] \<and> ts \<noteq> [] \<and> length ts \<le> 10 \<and> one_window ts"
  then show "check_all ip ts rl = (replicate (length ts) True, rl(ip \<mapsto> ts))"
    using check_all_fill[of rl ip "[]" ts] by simp
next
  assume "length (recentRequests now (requests_of rl ip)) \<ge> 10"
  then show "checkRateLimit now ip rl = (False, rl)"
    by (simp add: checkRateLimit_def MAX_REQUESTS_PER_WINDOW_def)
next
  assume "length (recentRequests now (requests_of rl ip)) < 10"
  then show "checkRateLimit now ip rl = (True, rl(ip \<mapsto> recentRequests now (requests_of rl ip) @ [now]))"
    by (simp add: checkRateLimit_def MAX_REQUESTS_PER_WINDOW_def)
qed

text \<open>
  Ten requests one second apart from a new key, an eleventh 59.999 s after the first (rejected)
  and one 60 s after the first (accepted, the first reading dropped).
\<close>

theorem rate_limit_sliding_window_witness:
  "one_window [0, 1000, 2000, 3000, 4000, 5000, 6000, 7000, 8000, 9000]
   \<and> check_all ''203.0.113.7'' [0, 1000, 2000, 3000, 4000, 5000, 6000, 7000, 8000, 9000] Map.empty
       = ([True, True, True, True, True, True, True, True, True, True],
          [''203.0.113.7'' \<mapsto> [0, 1000, 2000, 3000, 4000, 5000, 6000, 7000, 8000, 9000]])
   \<and> checkRateLimit 59999 ''203.0.113.7''
        [''203.0.113.7'' \<mapsto> [0, 1000, 2000, 3000, 4000, 5000, 6000, 7000, 8000, 9000]]
       = (False, [''203.0.113.7'' \<mapsto> [0, 1000, 2000, 3000, 4000, 5000, 6000, 7000, 8000, 9000]])
   \<and> checkRateLimit 60000 ''203.0.113.7''
        [''203.0.113.7'' \<mapsto> [0, 1000, 2000, 3000, 4000, 5000, 6000, 7000, 8000, 9000]]
       = (True, [''203.0.113.7'' \<mapsto> [1000, 2000, 3000, 4000, 5000, 6000, 7000, 8000, 9000, 60000]])"
proof -
  let ?ts = "[0, 1000, 2000, 3000, 4000, 5000, 6000, 7000, 8000, 9000] :: int list"
  let ?ip = "''203.0.113.7''"
  let ?full = "[?ip \<mapsto> ?ts]"
  have w: "one_window ?ts"
    by (simp add: one_window_def RATE_LIMIT_WINDOW_MS_def)
  have h1: "requests_of Map.empty ?ip = [] \<and> ?ts \<noteq> [] \<and> length ?ts \<le> 10 \<and> one_window ?ts"
    using w by (simp add: requests_of_def)
  have a: "check_all ?ip ?ts Map.empty = (replicate (length ?ts) True, ?full)"
    using rate_limit_sliding_window[of Map.empty ?ip ?ts 0] h1 by blast
  have h2: "length (recentRequests 59999 (requests_of ?full ?ip)) \<ge> 10"
    by (simp add: requests_of_def recentRequests_def RATE_LIMIT_WINDOW_MS_def)
  have b: "checkRateLimit 59999 ?ip ?full = (False, ?full)"
    using rate_limit_sliding_window[of ?full ?ip "[]" 59999] h2 by blast
  have r3: "recentRequests 60000 (requests_of ?full ?ip) = tl ?ts"
    by (simp add: requests_of_def recentRequests_def RATE_LIMIT_WINDOW_MS_def)
  have h3: "length (recentRequests 60000 (requests_of ?full ?ip)) < 10"
    by (simp add: r3)
  have c: "checkRateLimit 60000 ?ip ?full
             = (True, ?full(?ip \<mapsto> recentRequests 60000 (requests_of ?full ?ip) @ [60000]))"
    using rate_limit_sliding_window[of ?full ?ip "[]" 60000] h3 by blast
  have a': "replicate (length ?ts) True = [True, True, True, True, True, True, True, True, True, True]"
    by simp
  show ?thesis
    unfolding a b c r3 a' using w by simp
qed

subsection \<open>Escaping of submitted text\<close>

lemma replace_all_append:
  "replace_all c rep (a @ b) = replace_all c rep a @ replace_all c rep b"
  by (simp add: replace_all_def)

lemma sanitize_append: "sanitizeForHtml (a @ b) = sanitizeForHtml a @ sanitizeForHtml b"
  by (simp add: sanitizeForHtml_def replace_all_append)

lemma sanitize_char: "sanitizeForHtml [c] = html_entity c"
  by (simp add: sanitizeForHtml_def html_entity_def replace_all_def)

lemma sanitize_escape: "sanitizeForHtml s = escape_html s"
proof (induction s)
  case Nil
  show ?case by (simp add: sanitizeForHtml_def replace_all_def escape_html_def)
next
  case (Cons c s)
  have "sanitizeForHtml (c # s) = sanitizeForHtml [c] @ sanitizeForHtml s"
    using sanitize_append[of "[c]" s] by simp
  then show ?case using Cons.IH by (simp add: sanitize_char escape_html_def)
qed

lemma entity_no_markup: "set (html_entity c) \<inter> markup_chars = {}"
  by (simp add: html_entity_def markup_chars_def)

lemma escape_no_markup: "set (escape_html s) \<inter> markup_chars = {}"
  using entity_no_markup by (auto simp: escape_html_def)

lemma issue_email:
  "SendEmail m \<in> set (trace (issue env req d uid made dbase)) \<Longrightarrow> SendEmail m \<notin> set made \<Longrightarrow>
   m = compose_email (base_url req) (random_uuid env) d"
  by (auto simp: issue_def Let_def split: if_splits)

lemma resolve_user_calls: "resolve_user env req = (u, made) \<Longrightarrow> SendEmail m \<notin> set made"
  by (auto simp: resolve_user_def split: option.splits if_splits)

lemma handler_email:
  assumes "req_json req = Some rawBody" "validateApprovalEmailInput rawBody = Inr d"
    and "SendEmail m \<in> set (trace (send_approval_email env req dbase))"
  shows "m = compose_email (base_url req) (random_uuid env) d"
proof -
  obtain u made where r: "resolve_user env req = (u, made)" by (cases "resolve_user env req")
  have nd: "SendEmail m \<notin> set made" using r by (rule resolve_user_calls)
  show ?thesis
  proof (cases u)
    case None
    then show ?thesis using assms r nd
      by (simp add: send_approval_email_def split: if_splits)
  next
    case (Some uid)
    then have "SendEmail m \<in> set (trace (issue env req d uid made dbase))"
      using assms r by (simp add: send_approval_email_def split: if_splits)
    then show ?thesis using nd by (rule issue_email)
  qed
qed


lemma sample_submission_valid: "validateApprovalEmailInput sample_submission = Inr sample_data"
  by code_simp

lemma sample_user: "resolve_user sample_issue_env sample_issue_request = (Some ''user-1'', [AuthGetUser ''session-1''])"
  by code_simp

text \<open>
  Claim C6. \<open>sanitizeForHtml\<close> replaces every occurrence of the five characters by its entity,
  so its result holds none of \<open>< > " '\<close>; and the body of every message the issuer hands to the
  mail provider is the template filled with the escaped item name, submitter name, submitter
  address and description.
\<close>

theorem submitted_text_is_escaped:
  "sanitizeForHtml s = escape_html s
   \<and> set (escape_html s) \<inter> markup_chars = {}
   \<and> (req_json req = Some rawBody \<and> validateApprovalEmailInput rawBody = Inr d
        \<and> SendEmail m \<in> set (trace (send_approval_email env req dbase)) \<longrightarrow>
      mail_html m =
        email_html (itemType d) (escape_html (itemName d)) (escape_html (submitterName d))
          (escape_html (submitterEmail d))
          (escape_html (case description d of None \<Rightarrow> [] | Some t \<Rightarrow> t))
          (base_url req @ ''/approve?token='' @ random_uuid env @ ''&action=approve'')
          (base_url req @ ''/approve?token='' @ random_uuid env @ ''&action=reject''))"
proof (intro conjI impI)
  show "sanitizeForHtml s = escape_html s" by (rule sanitize_escape)
  show "set (escape_html s) \<inter> markup_chars = {}" by (rule escape_no_markup)
next
  assume h: "req_json req = Some rawBody \<and> validateApprovalEmailInput rawBody = Inr d
        \<and> SendEmail m \<in> set (trace (send_approval_email env req dbase))"
  then have m: "m = compose_email (base_url req) (random_uuid env) d"
    using handler_email by blast
  have e: "escape_html [] = []" by (simp add: escape_html_def)
  show "mail_html m =
        email_html (itemType d) (escape_html (itemName d)) (escape_html (submitterName d))
          (escape_html (submitterEmail d))
          (escape_html (case description d of None \<Rightarrow> [] | Some t \<Rightarrow> t))
          (base_url req @ ''/approve?token='' @ random_uuid env @ ''&action=approve'')
          (base_url req @ ''/approve?token='' @ random_uuid env @ ''&action=reject'')"
    unfolding m by (simp add: compose_email_def Let_def sanitize_escape e split: option.splits)
qed

text \<open>
  The sample submission, whose submitter name is a script element: the name reaches the
  message as \<open>&lt;script&gt;...\<close> only.
\<close>

theorem submitted_text_is_escaped_witness:
  "req_json sample_issue_request = Some sample_submission
   \<and> validateApprovalEmailInput sample_submission = Inr sample_data
   \<and> SendEmail (compose_email ''https://portal.example'' sample_uuid sample_data)
        \<in> set (trace (send_approval_email sample_issue_env sample_issue_request sample_database))
   \<and> mail_html (compose_email ''https://portal.example'' sample_uuid sample_data) =
        email_html Club ''Robotics &amp; AI'' ''&lt;script&gt;alert(1)&lt;/script&gt;'' ''eve@inst.edu'' []
          ''https://portal.example/approve?token=123e4567-e89b-12d3-a456-426614174000&action=approve''
          ''https://portal.example/approve?token=123e4567-e89b-12d3-a456-426614174000&action=reject''
   \<and> sanitizeForHtml ''<script>alert(1)</script>'' = ''&lt;script&gt;alert(1)&lt;/script&gt;''
   \<and> set ''&lt;script&gt;alert(1)&lt;/script&gt;'' \<inter> markup_chars = {}"
proof -
  let ?m = "compose_email ''https://portal.example'' sample_uuid sample_data"
  have b: "req_json sample_issue_request = Some sample_submission"
    by (simp add: sample_issue_request_def)
  have u: "base_url sample_issue_request = ''https://portal.example''"
    by (simp add: base_url_def sample_issue_request_def)
  have t: "SendEmail ?m \<in> set (trace (send_approval_email sample_issue_env sample_issue_request sample_database))"
    by (simp add: send_approval_email_def b sample_submission_valid sample_user issue_def Let_def u)
       (simp add: sample_issue_env_def sample_issue_request_def)
  have esc: "escape_html ''<script>alert(1)</script>'' = ''&lt;script&gt;alert(1)&lt;/script&gt;''"
            "escape_html ''Robotics & AI'' = ''Robotics &amp; AI''"
            "escape_html ''eve@inst.edu'' = ''eve@inst.edu''"
            "escape_html [] = []"
    by (simp_all add: escape_html_def html_entity_def)
  note inst = submitted_text_is_escaped[of "''<script>alert(1)</script>''" sample_issue_request
      sample_submission sample_data ?m sample_issue_env sample_database]
  have h: "mail_html ?m =
        email_html Club ''Robotics &amp; AI'' ''&lt;script&gt;alert(1)&lt;/script&gt;'' ''eve@inst.edu'' []
          ''https://portal.example/approve?token=123e4567-e89b-12d3-a456-426614174000&action=approve''
          ''https://portal.example/approve?token=123e4567-e89b-12d3-a456-426614174000&action=reject''"
    using inst b sample_submission_valid t
    by (simp add: esc u) (simp add: sample_data_def sample_issue_env_def sample_uuid_def esc)
  have s: "sanitizeForHtml ''<script>alert(1)</script>'' = ''&lt;script&gt;alert(1)&lt;/script&gt;''"
    using inst esc(1) by simp
  have n: "set ''&lt;script&gt;alert(1)&lt;/script&gt;'' \<inter> markup_chars = {}"
    using inst esc(1) by simp
  show ?thesis using b sample_submission_valid t h s n by blast
qed

subsection \<open>Partial failures of the issuer\<close>

lemma issue_insert_fails:
  "insert_error env \<Longrightarrow>
   issue env req d uid made dbase =
     \<lparr>reply = request_failed,
      trace = made @ [InsertPendingApproval (itemType d) (itemId d) uid (facultyEmail d) (random_uuid env)],
      final = dbase\<rparr>"
  by (simp add: issue_def Let_def)

lemma issue_update_fails:
  "\<not> insert_error env \<Longrightarrow> update_error env \<Longrightarrow>
   issue env req d uid made dbase =
     \<lparr>reply = (if fetch_throws env \<or> email_json_throws env then send_failed else success_response),
      trace = made @ [InsertPendingApproval (itemType d) (itemId d) uid (facultyEmail d) (random_uuid env),
                UpdateItemToken (if itemType d = Shop then ''shops'' else ''clubs'') (itemId d) (random_uuid env) uid,
                SendEmail (compose_email (base_url req) (random_uuid env) d)],
      final = dbase\<lparr>pending_approvals := pending_approvals dbase @ [issued_row env d uid]\<rparr>\<rparr>"
  by (simp add: issue_def Let_def)

lemma issue_reply_trace_update:
  "reply (issue (env\<lparr>update_error := True\<rparr>) req d uid made dbase) = reply (issue (env\<lparr>update_error := False\<rparr>) req d uid made dbase)
   \<and> trace (issue (env\<lparr>update_error := True\<rparr>) req d uid made dbase) = trace (issue (env\<lparr>update_error := False\<rparr>) req d uid made dbase)"
  by (simp add: issue_def Let_def)

lemma handler_issue:
  "req_method req \<noteq> ''OPTIONS'' \<Longrightarrow> req_json req = Some rawBody \<Longrightarrow>
   validateApprovalEmailInput rawBody = Inr d \<Longrightarrow> resolve_user env req = (Some uid, made) \<Longrightarrow>
   send_approval_email env req dbase = issue env req d uid made dbase"
  by (simp add: send_approval_email_def)

lemma resolve_user_env: "get_user env' = get_user env \<Longrightarrow> resolve_user env' req = resolve_user env req"
  by (simp add: resolve_user_def split: option.splits)

text \<open>
  Claim C4. For a valid submission of an identified caller: when the insert of the approval
  row fails, the reply is the error response, no message is handed to the mail provider and
  the database is as before; when the insert succeeds and the update of the item fails, the
  row stays inserted, the message is composed and sent as the last call, the reply and the
  calls are those of a run whose update succeeded, and the reply is the success response
  whenever the call to the mail provider itself does not throw.
\<close>

theorem issuer_partial_failures:
  assumes "req_method req \<noteq> ''OPTIONS''" and "req_json req = Some rawBody"
    and "validateApprovalEmailInput rawBody = Inr d"
    and "resolve_user env req = (Some uid, made)"
  shows
  "(insert_error env \<longrightarrow>
      reply (send_approval_email env req dbase) = request_failed
      \<and> (\<forall>m. SendEmail m \<notin> set (trace (send_approval_email env req dbase)))
      \<and> final (send_approval_email env req dbase) = dbase)
   \<and> (\<not> insert_error env \<and> update_error env \<longrightarrow>
      last (trace (send_approval_email env req dbase))
        = SendEmail (compose_email (base_url req) (random_uuid env) d)
      \<and> final (send_approval_email env req dbase)
        = dbase\<lparr>pending_approvals := pending_approvals dbase @ [issued_row env d uid]\<rparr>
      \<and> reply (send_approval_email env req dbase)
        = reply (send_approval_email (env\<lparr>update_error := False\<rparr>) req dbase)
      \<and> trace (send_approval_email env req dbase)
        = trace (send_approval_email (env\<lparr>update_error := False\<rparr>) req dbase)
      \<and> (\<not> fetch_throws env \<and> \<not> email_json_throws env \<longrightarrow>
           reply (send_approval_email env req dbase) = success_response))"
proof -
  have h: "send_approval_email env req dbase = issue env req d uid made dbase"
    using assms by (rule handler_issue)
  have nd: "\<forall>m. SendEmail m \<notin> set made"
    using assms(4) resolve_user_calls by blast
  have h': "send_approval_email (env\<lparr>update_error := False\<rparr>) req dbase
              = issue (env\<lparr>update_error := False\<rparr>) req d uid made dbase"
    using assms resolve_user_env[of "env\<lparr>update_error := False\<rparr>" env req]
    by (intro handler_issue) simp_all
  have first: "insert_error env \<longrightarrow>
      reply (send_approval_email env req dbase) = request_failed
      \<and> (\<forall>m. SendEmail m \<notin> set (trace (send_approval_email env req dbase)))
      \<and> final (send_approval_email env req dbase) = dbase"
    using nd by (simp add: h issue_insert_fails)
  have second: "\<not> insert_error env \<and> update_error env \<longrightarrow>
      last (trace (send_approval_email env req dbase))
        = SendEmail (compose_email (base_url req) (random_uuid env) d)
      \<and> final (send_approval_email env req dbase)
        = dbase\<lparr>pending_approvals := pending_approvals dbase @ [issued_row env d uid]\<rparr>
      \<and> (\<not> fetch_throws env \<and> \<not> email_json_throws env \<longrightarrow>
           reply (send_approval_email env req dbase) = success_response)"
    by (simp add: h issue_update_fails)
  have third: "update_error env \<longrightarrow>
      reply (send_approval_email env req dbase)
        = reply (send_approval_email (env\<lparr>update_error := False\<rparr>) req dbase)
      \<and> trace (send_approval_email env req dbase)
        = trace (send_approval_email (env\<lparr>update_error := False\<rparr>) req dbase)"
  proof
    assume "update_error env"
    then have "env = env\<lparr>update_error := True\<rparr>" by simp
    then show "reply (send_approval_email env req dbase)
        = reply (send_approval_email (env\<lparr>update_error := False\<rparr>) req dbase)
      \<and> trace (send_approval_email env req dbase)
        = trace (send_approval_email (env\<lparr>update_error := False\<rparr>) req dbase)"
      using issue_reply_trace_update[of env req d uid made dbase] by (simp add: h h')
  qed
  show ?thesis using first second third by blast
qed

text \<open>The sample submission, once with a failing insert and once with a failing item update.\<close>

theorem issuer_partial_failures_witness:
  "req_method sample_issue_request \<noteq> ''OPTIONS''
   \<and> req_json sample_issue_request = Some sample_submission
   \<and> validateApprovalEmailInput sample_submission = Inr sample_data
   \<and> resolve_user sample_issue_env sample_issue_request = (Some ''user-1'', [AuthGetUser ''session-1''])
   \<and> reply (send_approval_email (sample_issue_env\<lparr>insert_error := True\<rparr>) sample_issue_request sample_database)
       = request_failed
   \<and> final (send_approval_email (sample_issue_env\<lparr>insert_error := True\<rparr>) sample_issue_request sample_database)
       = sample_database
   \<and> reply (send_approval_email (sample_issue_env\<lparr>update_error := True\<rparr>) sample_issue_request sample_database)
       = success_response
   \<and> last (trace (send_approval_email (sample_issue_env\<lparr>update_error := True\<rparr>) sample_issue_request sample_database))
       = SendEmail (compose_email ''https://portal.example'' sample_uuid sample_data)
   \<and> clubs (final (send_approval_email (sample_issue_env\<lparr>update_error := True\<rparr>) sample_issue_request sample_database))
       = [sample_club]"
proof -
  let ?e1 = "sample_issue_env\<lparr>insert_error := True\<rparr>"
  let ?e2 = "sample_issue_env\<lparr>update_error := True\<rparr>"
  have m: "req_method sample_issue_request \<noteq> ''OPTIONS''"
    and b: "req_json sample_issue_request = Some sample_submission"
    and u: "base_url sample_issue_request = ''https://portal.example''"
    by (simp_all add: sample_issue_request_def base_url_def)
  have r1: "resolve_user ?e1 sample_issue_request = (Some ''user-1'', [AuthGetUser ''session-1''])"
    and r2: "resolve_user ?e2 sample_issue_request = (Some ''user-1'', [AuthGetUser ''session-1''])"
    using sample_user resolve_user_env[of ?e1 sample_issue_env sample_issue_request]
      resolve_user_env[of ?e2 sample_issue_env sample_issue_request] by simp_all
  have f1: "insert_error ?e1" and f2: "\<not> insert_error ?e2 \<and> update_error ?e2"
    and f3: "\<not> fetch_throws ?e2 \<and> \<not> email_json_throws ?e2" and f4: "random_uuid ?e2 = sample_uuid"
    by (simp_all add: sample_issue_env_def)
  have one: "reply (send_approval_email ?e1 sample_issue_request sample_database) = request_failed
       \<and> final (send_approval_email ?e1 sample_issue_request sample_database) = sample_database"
    using issuer_partial_failures[OF m b sample_submission_valid r1, of sample_database] f1 by blast
  have two: "reply (send_approval_email ?e2 sample_issue_request sample_database) = success_response
       \<and> last (trace (send_approval_email ?e2 sample_issue_request sample_database))
           = SendEmail (compose_email (base_url sample_issue_request) (random_uuid ?e2) sample_data)
       \<and> final (send_approval_email ?e2 sample_issue_request sample_database)
           = sample_database\<lparr>pending_approvals := pending_approvals sample_database
               @ [issued_row ?e2 sample_data ''user-1'']\<rparr>"
    using issuer_partial_failures[OF m b sample_submission_valid r2, of sample_database] f2 f3 by blast
  have three: "clubs (final (send_approval_email ?e2 sample_issue_request sample_database)) = [sample_club]"
    using two by (simp add: sample_database_def)
  show ?thesis
    using m b sample_submission_valid sample_user one two three unfolding u f4 by blast
qed


subsection \<open>Order of validation and identification\<close>

lemma responses_differ:
  "unauthorized \<noteq> preflight_response" "unauthorized \<noteq> send_failed"
  "unauthorized \<noteq> invalid_request" "unauthorized \<noteq> request_failed"
  "unauthorized \<noteq> success_response"
  by (simp_all add: unauthorized_def preflight_response_def send_failed_def invalid_request_def
      request_failed_def success_response_def error_response_def json_response_def)

lemma issue_reply_not_unauthorized: "reply (issue env req d uid made dbase) \<noteq> unauthorized"
  using responses_differ by (auto simp: issue_def Let_def)

text \<open>
  Claim C10. A request whose parsed body fails validation gets the generic 400 reply whatever
  its headers are, and no call is made (the identity service is not asked); and the 401 reply
  is given only when the body has passed validation and no caller was identified.
\<close>

theorem validation_precedes_identity:
  "(req_method req \<noteq> ''OPTIONS'' \<and> req_json req = Some rawBody
      \<and> validateApprovalEmailInput rawBody = Inl e \<longrightarrow>
      send_approval_email env req dbase = \<lparr>reply = invalid_request, trace = [], final = dbase\<rparr>)
   \<and> (reply (send_approval_email env req dbase) = unauthorized \<longrightarrow>
      (\<exists>rawBody d. req_json req = Some rawBody \<and> validateApprovalEmailInput rawBody = Inr d
         \<and> fst (resolve_user env req) = None))"
proof (intro conjI impI)
  assume "req_method req \<noteq> ''OPTIONS'' \<and> req_json req = Some rawBody
      \<and> validateApprovalEmailInput rawBody = Inl e"
  then show "send_approval_email env req dbase = \<lparr>reply = invalid_request, trace = [], final = dbase\<rparr>"
    by (simp add: send_approval_email_def)
next
  assume u: "reply (send_approval_email env req dbase) = unauthorized"
  show "\<exists>rawBody d. req_json req = Some rawBody \<and> validateApprovalEmailInput rawBody = Inr d
         \<and> fst (resolve_user env req) = None"
  proof (cases "req_method req = ''OPTIONS''")
    case True
    then show ?thesis using u responses_differ by (simp add: send_approval_email_def)
  next
    case False
    show ?thesis
    proof (cases "req_json req")
      case None
      then show ?thesis using u False responses_differ by (simp add: send_approval_email_def)
    next
      case (Some rawBody)
      show ?thesis
      proof (cases "validateApprovalEmailInput rawBody")
        case (Inl e)
        then show ?thesis using u False Some responses_differ by (simp add: send_approval_email_def)
      next
        case (Inr d)
        obtain who made where r: "resolve_user env req = (who, made)"
          by (cases "resolve_user env req")
        have "who = None"
        proof (cases who)
          case None then show ?thesis .
        next
          case (Some uid)
          then have "reply (send_approval_email env req dbase) = reply (issue env req d uid made dbase)"
            using False \<open>req_json req = Some rawBody\<close> Inr r by (simp add: send_approval_email_def)
          then show ?thesis using u issue_reply_not_unauthorized by metis
        qed
        then show ?thesis using \<open>req_json req = Some rawBody\<close> Inr r by simp
      qed
    qed
  qed
qed

lemma bad_submission_invalid: "validateApprovalEmailInput bad_submission = Inl ''Invalid item ID''"
  by code_simp

text \<open>
  Two requests without any credential: an invalid submission gets 400, the valid sample
  submission gets 401.
\<close>

theorem validation_precedes_identity_witness:
  "req_method (anonymous bad_submission) \<noteq> ''OPTIONS''
   \<and> req_json (anonymous bad_submission) = Some bad_submission
   \<and> validateApprovalEmailInput bad_submission = Inl ''Invalid item ID''
   \<and> send_approval_email sample_issue_env (anonymous bad_submission) sample_database
        = \<lparr>reply = invalid_request, trace = [], final = sample_database\<rparr>
   \<and> reply (send_approval_email sample_issue_env (anonymous sample_submission) sample_database) = unauthorized
   \<and> validateApprovalEmailInput sample_submission = Inr sample_data
   \<and> fst (resolve_user sample_issue_env (anonymous sample_submission)) = None"
proof -
  have a: "req_method (anonymous bad_submission) \<noteq> ''OPTIONS''
      \<and> req_json (anonymous bad_submission) = Some bad_submission
      \<and> validateApprovalEmailInput bad_submission = Inl ''Invalid item ID''"
    by (simp add: anonymous_def bad_submission_invalid)
  have b: "send_approval_email sample_issue_env (anonymous bad_submission) sample_database
        = \<lparr>reply = invalid_request, trace = [], final = sample_database\<rparr>"
    using validation_precedes_identity[of "anonymous bad_submission" bad_submission
        "''Invalid item ID''" sample_issue_env sample_database] a by blast
  have n: "resolve_user sample_issue_env (anonymous sample_submission) = (None, [])"
    by (simp add: resolve_user_def bearer_token_def anonymous_def)
  have c: "reply (send_approval_email sample_issue_env (anonymous sample_submission) sample_database) = unauthorized"
    by (simp add: send_approval_email_def anonymous_def sample_submission_valid n[unfolded anonymous_def])
  have d: "fst (resolve_user sample_issue_env (anonymous sample_submission)) = None"
    using validation_precedes_identity[of "anonymous sample_submission" _ _ sample_issue_env sample_database] c
    by (simp add: n)
  show ?thesis using a b c d sample_submission_valid by blast
qed


subsection \<open>The decision processor\<close>

lemma maybeSingle_Some: "maybeSingle rows = QueryData (Some r) \<Longrightarrow> rows = [r]"
  by (auto simp: maybeSingle_def split: list.splits)

lemma maybeSingle_None: "maybeSingle rows = QueryData None \<longleftrightarrow> rows = []"
  by (auto simp: maybeSingle_def split: list.splits)

lemma found_is_live:
  assumes "find_approval env token d = QueryData (Some r)"
  shows "r \<in> set (pending_approvals d) \<and> approval_token r = token \<and> status r = Pending
         \<and> created_at r \<ge> now_lookup env - EXPIRY_MS"
proof -
  have "live_rows token (now_lookup env - EXPIRY_MS) (pending_approvals d) = [r]"
    using assms by (auto simp: find_approval_def split: if_splits dest: maybeSingle_Some)
  then have "r \<in> set (live_rows token (now_lookup env - EXPIRY_MS) (pending_approvals d))"
    by simp
  then show ?thesis by (simp add: live_rows_def)
qed

lemma no_live_row_empty:
  "no_live_row token now rows \<Longrightarrow> live_rows token (now - EXPIRY_MS) rows = []"
  by (auto simp: no_live_row_def live_rows_def filter_empty_conv)

lemma validateInput_object:
  "validateInput (js_get b ''token'') (js_get b ''action'') = Inr (token, act) \<Longrightarrow> b \<noteq> JNull"
  by (auto simp: validateInput_def)

text \<open>The handler on a request that passed the limiter and validation.\<close>

lemma process_approval_valid:
  assumes "req_method req \<noteq> ''OPTIONS''"
    and "fst (checkRateLimit (now_limit env) (clientIp req) (rateLimiter st))"
    and "req_json req = Some b"
    and "validateInput (js_get b ''token'') (js_get b ''action'') = Inr (token, act)"
  shows "process_approval env req st =
     (let st0 = st\<lparr>rateLimiter := snd (checkRateLimit (now_limit env) (clientIp req) (rateLimiter st))\<rparr>;
          sel = SelectPendingApproval token (now_lookup env - EXPIRY_MS)
      in case find_approval env token (db st) of
           QueryError \<Rightarrow> \<lparr>reply = processing_failed, trace = [sel], final = st0\<rparr>
         | QueryData None \<Rightarrow> \<lparr>reply = link_invalid, trace = [sel], final = st0\<rparr>
         | QueryData (Some approval) \<Rightarrow> decide env act approval [sel] st0)"
proof -
  have "b \<noteq> JNull" using assms(4) by (rule validateInput_object)
  then show ?thesis using assms
    by (cases b) (simp_all add: process_approval_def Let_def find_approval_def)
qed

text \<open>
  Claim C2. For a request that passed the limiter and validation, and a token that no row
  can be matched for (no row carries it, or every row carrying it is already decided or older
  than 30 days), the reply is one and the same: the 400 reply with the generic message when
  the lookup itself works (the 500 reply when it does not), and the database is left as it
  was. The reply does not depend on which of the three situations holds.
\<close>

theorem dead_tokens_look_alike:
  assumes "req_method req \<noteq> ''OPTIONS''"
    and "fst (checkRateLimit (now_limit env) (clientIp req) (rateLimiter st))"
    and "req_json req = Some b"
    and "validateInput (js_get b ''token'') (js_get b ''action'') = Inr (token, act)"
    and "no_live_row token (now_lookup env) (pending_approvals (db st))"
  shows "reply (process_approval env req st) = (if find_error env then processing_failed else link_invalid)
     \<and> db (final (process_approval env req st)) = db st"
proof -
  have "find_approval env token (db st) = (if find_error env then QueryError else QueryData None)"
    using assms(5) by (simp add: find_approval_def no_live_row_empty maybeSingle_def)
  then show ?thesis
    by (simp add: process_approval_valid[OF assms(1-4)] Let_def)
qed

lemma decide_first_write_fails:
  "update_approval_error env \<Longrightarrow>
   decide env act approval made st =
     \<lparr>reply = processing_failed,
      trace = made @ [UpdatePendingApproval (row_id approval) (if act = Approve then Approved else Rejected)],
      final = st\<rparr>"
  by (simp add: decide_def Let_def)

lemma decide_second_write_fails:
  "\<not> update_approval_error env \<Longrightarrow> update_item_error env \<Longrightarrow>
   decide env act approval made st =
     \<lparr>reply = processing_failed,
      trace = made @ [UpdatePendingApproval (row_id approval) (if act = Approve then Approved else Rejected),
                UpdateItemStatus (if item_type approval = Shop then ''shops'' else ''clubs'') (item_id approval)
                  (if act = Approve then Approved else Rejected)],
      final = st\<lparr>db := update_approvals (row_id approval)
                 (\<lambda>r. r\<lparr>status := (if act = Approve then Approved else Rejected)\<rparr>) (db st)\<rparr>\<rparr>"
  by (simp add: decide_def Let_def)

lemma decide_both_writes:
  "\<not> update_approval_error env \<Longrightarrow> \<not> update_item_error env \<Longrightarrow>
   decide env act approval made st =
     \<lparr>reply = decision_made (item_type approval) (if act = Approve then Approved else Rejected),
      trace = made @ [UpdatePendingApproval (row_id approval) (if act = Approve then Approved else Rejected),
                UpdateItemStatus (if item_type approval = Shop then ''shops'' else ''clubs'') (item_id approval)
                  (if act = Approve then Approved else Rejected)],
      final = st\<lparr>db := update_entities (if item_type approval = Shop then ''shops'' else ''clubs'')
                 (item_id approval) (\<lambda>e. e\<lparr>entity_status := (if act = Approve then Approved else Rejected)\<rparr>)
                 (update_approvals (row_id approval)
                    (\<lambda>r. r\<lparr>status := (if act = Approve then Approved else Rejected)\<rparr>) (db st))\<rparr>\<rparr>"
  by (simp add: decide_def Let_def)

lemma update_approvals_tables:
  "shops (update_approvals k f d) = shops d" "clubs (update_approvals k f d) = clubs d"
  "pending_approvals (update_approvals k f d) = map (\<lambda>r. if row_id r = k then f r else r) (pending_approvals d)"
  by (simp_all add: update_approvals_def)

lemma update_entities_approvals:
  "pending_approvals (update_entities t k f d) = pending_approvals d"
  by (simp add: update_entities_def Let_def)

lemma updated_row_present:
  "r \<in> set (pending_approvals d) \<Longrightarrow> f r \<in> set (pending_approvals (update_approvals (row_id r) f d))"
  by (force simp: update_approvals_tables)

text \<open>
  Claim C3. For a request whose token matched a row: the write to \<open>pending_approvals\<close> is
  called before the write to the item's table; when the first write fails the reply is the
  failure response, the second write is not called and the database is unchanged; when the
  first succeeds the matched row is stored with its decided status, and when the second then
  fails the reply is the failure response and the tables \<open>shops\<close> and \<open>clubs\<close> are as before.
\<close>

theorem decision_writes_in_order:
  assumes "req_method req \<noteq> ''OPTIONS''"
    and "fst (checkRateLimit (now_limit env) (clientIp req) (rateLimiter st))"
    and "req_json req = Some b"
    and "validateInput (js_get b ''token'') (js_get b ''action'') = Inr (token, act)"
    and "find_approval env token (db st) = QueryData (Some approval)"
    and "newStatus = (if act = Approve then Approved else Rejected)"
    and "out = process_approval env req st"
  shows
  "(update_approval_error env \<longrightarrow>
      reply out = processing_failed
      \<and> trace out = [SelectPendingApproval token (now_lookup env - EXPIRY_MS),
                      UpdatePendingApproval (row_id approval) newStatus]
      \<and> db (final out) = db st)
   \<and> (\<not> update_approval_error env \<longrightarrow>
      trace out = [SelectPendingApproval token (now_lookup env - EXPIRY_MS),
                   UpdatePendingApproval (row_id approval) newStatus,
                   UpdateItemStatus (if item_type approval = Shop then ''shops'' else ''clubs'')
                     (item_id approval) newStatus]
      \<and> approval\<lparr>status := newStatus\<rparr> \<in> set (pending_approvals (db (final out))))
   \<and> (\<not> update_approval_error env \<and> update_item_error env \<longrightarrow>
      reply out = processing_failed
      \<and> shops (db (final out)) = shops (db st) \<and> clubs (db (final out)) = clubs (db st))"
proof -
  have live: "approval \<in> set (pending_approvals (db st))"
    using found_is_live[OF assms(5)] by simp
  have out: "out = decide env act approval [SelectPendingApproval token (now_lookup env - EXPIRY_MS)]
      (st\<lparr>rateLimiter := snd (checkRateLimit (now_limit env) (clientIp req) (rateLimiter st))\<rparr>)"
    unfolding assms(7) by (simp add: process_approval_valid[OF assms(1-4)] Let_def assms(5))
  have one: "update_approval_error env \<longrightarrow>
      reply out = processing_failed
      \<and> trace out = [SelectPendingApproval token (now_lookup env - EXPIRY_MS),
                      UpdatePendingApproval (row_id approval) newStatus]
      \<and> db (final out) = db st"
    by (simp add: out decide_first_write_fails assms(6))
  have two: "\<not> update_approval_error env \<longrightarrow>
      trace out = [SelectPendingApproval token (now_lookup env - EXPIRY_MS),
                   UpdatePendingApproval (row_id approval) newStatus,
                   UpdateItemStatus (if item_type approval = Shop then ''shops'' else ''clubs'')
                     (item_id approval) newStatus]
      \<and> approval\<lparr>status := newStatus\<rparr> \<in> set (pending_approvals (db (final out)))"
  proof
    assume ok: "\<not> update_approval_error env"
    have row: "approval\<lparr>status := newStatus\<rparr>
        \<in> set (pending_approvals (update_approvals (row_id approval) (\<lambda>r. r\<lparr>status := newStatus\<rparr>) (db st)))"
      using updated_row_present[OF live, of "\<lambda>r. r\<lparr>status := newStatus\<rparr>"] .
    show "trace out = [SelectPendingApproval token (now_lookup env - EXPIRY_MS),
                   UpdatePendingApproval (row_id approval) newStatus,
                   UpdateItemStatus (if item_type approval = Shop then ''shops'' else ''clubs'')
                     (item_id approval) newStatus]
      \<and> approval\<lparr>status := newStatus\<rparr> \<in> set (pending_approvals (db (final out)))"
    proof (cases "update_item_error env")
      case True
      then show ?thesis using ok row
        by (simp add: out decide_second_write_fails assms(6))
    next
      case False
      then show ?thesis using ok row
        by (simp add: out decide_both_writes update_entities_approvals assms(6))
    qed
  qed
  have three: "\<not> update_approval_error env \<and> update_item_error env \<longrightarrow>
      reply out = processing_failed
      \<and> shops (db (final out)) = shops (db st) \<and> clubs (db (final out)) = clubs (db st)"
    by (simp add: out decide_second_write_fails update_approvals_tables)
  show ?thesis using one two three by blast
qed

lemma decided_from_refl: "decided_from r r"
  by (simp add: decided_from_def)

lemma decided_from_trans: "decided_from a b \<Longrightarrow> decided_from b c \<Longrightarrow> decided_from a c"
  by (auto simp: decided_from_def)

lemma decided_from_final: "decided_from r r' \<Longrightarrow> status r \<noteq> Pending \<Longrightarrow> r' = r"
  by (auto simp: decided_from_def)

lemma same_id_same_row:
  "distinct (map row_id rows) \<Longrightarrow> a \<in> set rows \<Longrightarrow> r \<in> set rows \<Longrightarrow> row_id r = row_id a \<Longrightarrow> r = a"
  by (meson distinct_map inj_onD)

lemma update_one_row:
  assumes "distinct (map row_id rows)" and "a \<in> set rows" and "status a = Pending"
    and "s = Approved \<or> s = Rejected"
  shows "list_all2 decided_from rows (map (\<lambda>r. if row_id r = row_id a then r\<lparr>status := s\<rparr> else r) rows)"
proof -
  have "decided_from r (if row_id r = row_id a then r\<lparr>status := s\<rparr> else r)" if "r \<in> set rows" for r
  proof (cases "row_id r = row_id a")
    case True
    then have "r = a" using assms(1,2) that by (meson same_id_same_row)
    then show ?thesis using True assms(3,4) by (auto simp: decided_from_def)
  next
    case False
    then show ?thesis by (simp add: decided_from_refl)
  qed
  then show ?thesis by (simp add: list_all2_map2 list_all2_same)
qed

lemma update_keeps_ids:
  "map row_id (map (\<lambda>r. if row_id r = k then r\<lparr>status := s\<rparr> else r) rows) = map row_id rows"
  by (induction rows) auto

lemma decide_rows:
  assumes "distinct (map row_id (pending_approvals (db st)))"
    and "approval \<in> set (pending_approvals (db st))" and "status approval = Pending"
  shows "list_all2 decided_from (pending_approvals (db st))
           (pending_approvals (db (final (decide env act approval made st))))
         \<and> map row_id (pending_approvals (db (final (decide env act approval made st))))
             = map row_id (pending_approvals (db st))"
proof -
  let ?s = "if act = Approve then Approved else Rejected"
  have s: "?s = Approved \<or> ?s = Rejected" by simp
  note upd = update_one_row[OF assms s] update_keeps_ids[of "row_id approval" ?s "pending_approvals (db st)"]
  consider "update_approval_error env" | "\<not> update_approval_error env" "update_item_error env"
    | "\<not> update_approval_error env" "\<not> update_item_error env" by blast
  then show ?thesis
  proof cases
    case 1
    then show ?thesis
      by (simp add: decide_first_write_fails list_all2_same decided_from_refl)
  next
    case 2
    then show ?thesis using upd
      by (simp add: decide_second_write_fails update_approvals_tables)
  next
    case 3
    then show ?thesis using upd
      by (simp add: decide_both_writes update_approvals_tables update_entities_approvals)
  qed
qed

lemma process_approval_db:
  "db (final (process_approval env req st)) = db st
   \<or> (\<exists>token act approval made st0. find_approval env token (db st) = QueryData (Some approval)
        \<and> db st0 = db st \<and> process_approval env req st = decide env act approval made st0)"
proof (cases "req_method req \<noteq> ''OPTIONS'' \<and> fst (checkRateLimit (now_limit env) (clientIp req) (rateLimiter st))")
  case False
  then show ?thesis by (auto simp: process_approval_def Let_def)
next
  case gate: True
  show ?thesis
  proof (cases "req_json req")
    case None
    then show ?thesis using gate by (simp add: process_approval_def Let_def)
  next
    case (Some b)
    show ?thesis
    proof (cases "validateInput (js_get b ''token'') (js_get b ''action'')")
      case (Inl e)
      then show ?thesis using gate Some
        by (cases b) (simp_all add: process_approval_def Let_def)
    next
      case (Inr p)
      obtain token act where p: "p = (token, act)" by (cases p)
      have v: "validateInput (js_get b ''token'') (js_get b ''action'') = Inr (token, act)"
        using Inr p by simp
      note eq = process_approval_valid[OF conjunct1[OF gate] conjunct2[OF gate] Some v]
      show ?thesis
      proof (cases "find_approval env token (db st)")
        case QueryError
        then show ?thesis by (simp add: eq Let_def)
      next
        case (QueryData found)
        show ?thesis
        proof (cases found)
          case None
          then show ?thesis using QueryData by (simp add: eq Let_def)
        next
          case (Some approval)
          have "process_approval env req st =
              decide env act approval [SelectPendingApproval token (now_lookup env - EXPIRY_MS)]
                (st\<lparr>rateLimiter := snd (checkRateLimit (now_limit env) (clientIp req) (rateLimiter st))\<rparr>)"
            using QueryData Some by (simp add: eq Let_def)
          moreover have "db (st\<lparr>rateLimiter := snd (checkRateLimit (now_limit env) (clientIp req) (rateLimiter st))\<rparr>) = db st"
            by simp
          ultimately show ?thesis using QueryData Some by blast
        qed
      qed
    qed
  qed
qed

lemma process_approval_rows:
  assumes "distinct (map row_id (pending_approvals (db st)))"
  shows "list_all2 decided_from (pending_approvals (db st))
           (pending_approvals (db (final (process_approval env req st))))
         \<and> map row_id (pending_approvals (db (final (process_approval env req st))))
             = map row_id (pending_approvals (db st))"
  using process_approval_db[of env req st]
proof (elim disjE exE conjE)
  assume "db (final (process_approval env req st)) = db st"
  then show ?thesis by (simp add: list_all2_same decided_from_refl)
next
  fix token act approval made st0
  assume f: "find_approval env token (db st) = QueryData (Some approval)"
    and d: "db st0 = db st" and e: "process_approval env req st = decide env act approval made st0"
  have "approval \<in> set (pending_approvals (db st0))" "status approval = Pending"
    using found_is_live[OF f] d by simp_all
  moreover have "distinct (map row_id (pending_approvals (db st0)))" using assms d by simp
  ultimately show ?thesis using decide_rows[of st0 approval env act made] d e by simp
qed

lemma process_all_rows:
  "distinct (map row_id (pending_approvals (db st))) \<Longrightarrow>
   list_all2 decided_from (pending_approvals (db st)) (pending_approvals (db (process_all reqs st)))
   \<and> map row_id (pending_approvals (db (process_all reqs st))) = map row_id (pending_approvals (db st))"
proof (induction reqs arbitrary: st)
  case Nil
  then show ?case by (simp add: list_all2_same decided_from_refl)
next
  case (Cons x reqs)
  obtain env req where x: "x = (env, req)" by (cases x)
  let ?st1 = "final (process_approval env req st)"
  have one: "list_all2 decided_from (pending_approvals (db st)) (pending_approvals (db ?st1))"
    and ids: "map row_id (pending_approvals (db ?st1)) = map row_id (pending_approvals (db st))"
    using process_approval_rows[OF Cons.prems, of env req] by simp_all
  have "distinct (map row_id (pending_approvals (db ?st1)))" using ids Cons.prems by simp
  then have rest: "list_all2 decided_from (pending_approvals (db ?st1)) (pending_approvals (db (process_all reqs ?st1)))"
    and ids': "map row_id (pending_approvals (db (process_all reqs ?st1))) = map row_id (pending_approvals (db ?st1))"
    using Cons.IH[of ?st1] by simp_all
  have "list_all2 decided_from (pending_approvals (db st)) (pending_approvals (db (process_all reqs ?st1)))"
    using list_all2_trans[of decided_from decided_from decided_from, OF _ one rest] decided_from_trans
    by blast
  then show ?case using ids ids' x by simp
qed

text \<open>
  Claim C1. With row ids unique (\<open>id\<close> is the key of the table), after any sequence of invocations of the processor the table
  has the same number of rows, every row is what it was or was pending and differs only by
  a status of approved or rejected, and a row that was approved or rejected is unchanged;
  and the lookup returns only a row whose status is pending.
\<close>

theorem token_single_use:
  assumes "distinct (map row_id (pending_approvals (db st)))"
    and "rows = pending_approvals (db st)"
    and "rows' = pending_approvals (db (process_all reqs st))"
  shows "length rows' = length rows
     \<and> (\<forall>i < length rows. decided_from (rows ! i) (rows' ! i)
           \<and> (status (rows ! i) \<noteq> Pending \<longrightarrow> rows' ! i = rows ! i))
     \<and> (find_approval env token (db st) = QueryData (Some r) \<longrightarrow> status r = Pending)"
proof -
  have all: "list_all2 decided_from rows rows'"
    using process_all_rows[OF assms(1), of reqs] assms(2,3) by simp
  then have len: "length rows' = length rows" by (simp add: list_all2_lengthD)
  have each: "decided_from (rows ! i) (rows' ! i)" if "i < length rows" for i
    using all that by (simp add: list_all2_nthD)
  have live: "find_approval env token (db st) = QueryData (Some r) \<longrightarrow> status r = Pending"
    using found_is_live by blast
  show ?thesis using len each decided_from_final live by blast
qed

lemma decision_request_passes:
  "req_method (decision_request a) \<noteq> ''OPTIONS''"
  "fst (checkRateLimit (now_limit sample_proc_env) (clientIp (decision_request a)) (rateLimiter (state_with rows)))"
  "req_json (decision_request a) = Some (JObj [(''token'', JStr sample_uuid), (''action'', JStr a)])"
  by (simp_all add: decision_request_def state_with_def checkRateLimit_def requests_of_def
      recentRequests_def MAX_REQUESTS_PER_WINDOW_def)

lemma sample_uuid_shape: "uuidRegex_test sample_uuid"
  by code_simp

lemma decision_request_valid:
  "validateInput (js_get (JObj [(''token'', JStr sample_uuid), (''action'', JStr ''approve'')]) ''token'')
     (js_get (JObj [(''token'', JStr sample_uuid), (''action'', JStr ''approve'')]) ''action'')
     = Inr (sample_uuid, Approve)"
  "validateInput (js_get (JObj [(''token'', JStr sample_uuid), (''action'', JStr ''reject'')]) ''token'')
     (js_get (JObj [(''token'', JStr sample_uuid), (''action'', JStr ''reject'')]) ''action'')
     = Inr (sample_uuid, Reject)"
  using sample_uuid_shape by (simp_all add: validateInput_def) (simp_all add: sample_uuid_def)

lemma sample_lookup:
  "find_approval sample_proc_env sample_uuid (db (state_with [sample_row])) = QueryData (Some sample_row)"
  by (simp add: find_approval_def sample_proc_env_def state_with_def live_rows_def sample_row_def
      EXPIRY_MS_def maybeSingle_def)

text \<open>
  The same request against a table without the token, with the row approved, and with the
  row 31 days old.
\<close>

theorem dead_tokens_look_alike_witness:
  "no_live_row sample_uuid (now_lookup sample_proc_env) (pending_approvals (db (state_with [])))
   \<and> no_live_row sample_uuid (now_lookup sample_proc_env) (pending_approvals (db (state_with [approved_row])))
   \<and> no_live_row sample_uuid (now_lookup sample_proc_env) (pending_approvals (db (state_with [expired_row])))
   \<and> reply (process_approval sample_proc_env (decision_request ''approve'') (state_with [])) = link_invalid
   \<and> reply (process_approval sample_proc_env (decision_request ''approve'') (state_with [approved_row])) = link_invalid
   \<and> reply (process_approval sample_proc_env (decision_request ''approve'') (state_with [expired_row])) = link_invalid"
proof -
  have n: "no_live_row sample_uuid (now_lookup sample_proc_env) (pending_approvals (db (state_with [])))"
       "no_live_row sample_uuid (now_lookup sample_proc_env) (pending_approvals (db (state_with [approved_row])))"
       "no_live_row sample_uuid (now_lookup sample_proc_env) (pending_approvals (db (state_with [expired_row])))"
    by (simp_all add: no_live_row_def state_with_def approved_row_def expired_row_def sample_row_def
        sample_proc_env_def EXPIRY_MS_def)
  have e: "\<not> find_error sample_proc_env" by (simp add: sample_proc_env_def)
  note inst = dead_tokens_look_alike[OF decision_request_passes(1) decision_request_passes(2)
      decision_request_passes(3) decision_request_valid(1)]
  show ?thesis using inst[OF n(1)] inst[OF n(2)] inst[OF n(3)] n e by simp
qed

text \<open>An approval of the sample row, once with each write failing.\<close>

theorem decision_writes_in_order_witness:
  "find_approval sample_proc_env sample_uuid (db (state_with [sample_row])) = QueryData (Some sample_row)
   \<and> reply (process_approval (sample_proc_env\<lparr>update_approval_error := True\<rparr>)
        (decision_request ''approve'') (state_with [sample_row])) = processing_failed
   \<and> db (final (process_approval (sample_proc_env\<lparr>update_approval_error := True\<rparr>)
        (decision_request ''approve'') (state_with [sample_row]))) = db (state_with [sample_row])
   \<and> reply (process_approval (sample_proc_env\<lparr>update_item_error := True\<rparr>)
        (decision_request ''approve'') (state_with [sample_row])) = processing_failed
   \<and> approved_row \<in> set (pending_approvals (db (final (process_approval
        (sample_proc_env\<lparr>update_item_error := True\<rparr>) (decision_request ''approve'') (state_with [sample_row])))))
   \<and> clubs (db (final (process_approval (sample_proc_env\<lparr>update_item_error := True\<rparr>)
        (decision_request ''approve'') (state_with [sample_row])))) = [sample_club]
   \<and> entity_status sample_club = Pending"
proof -
  let ?e1 = "sample_proc_env\<lparr>update_approval_error := True\<rparr>"
  let ?e2 = "sample_proc_env\<lparr>update_item_error := True\<rparr>"
  let ?st = "state_with [sample_row]"
  let ?req = "decision_request ''approve''"
  have p1: "fst (checkRateLimit (now_limit ?e1) (clientIp ?req) (rateLimiter ?st))"
    and p2: "fst (checkRateLimit (now_limit ?e2) (clientIp ?req) (rateLimiter ?st))"
    using decision_request_passes(2)[of "''approve''" "[sample_row]"] by simp_all
  have f1: "find_approval ?e1 sample_uuid (db ?st) = QueryData (Some sample_row)"
    and f2: "find_approval ?e2 sample_uuid (db ?st) = QueryData (Some sample_row)"
    using sample_lookup by (simp_all add: find_approval_def sample_proc_env_def)
  have flags: "update_approval_error ?e1" "\<not> update_approval_error ?e2 \<and> update_item_error ?e2"
    by (simp_all add: sample_proc_env_def)
  have one: "reply (process_approval ?e1 ?req ?st) = processing_failed
      \<and> db (final (process_approval ?e1 ?req ?st)) = db ?st"
    using decision_writes_in_order[OF decision_request_passes(1) p1 decision_request_passes(3)
        decision_request_valid(1) f1 refl refl] flags(1) by blast
  have two: "reply (process_approval ?e2 ?req ?st) = processing_failed
      \<and> sample_row\<lparr>status := if Approve = Approve then Approved else Rejected\<rparr>
          \<in> set (pending_approvals (db (final (process_approval ?e2 ?req ?st))))
      \<and> clubs (db (final (process_approval ?e2 ?req ?st))) = clubs (db ?st)"
    using decision_writes_in_order[OF decision_request_passes(1) p2 decision_request_passes(3)
        decision_request_valid(1) f2 refl refl] flags(2) by blast
  have c: "clubs (db ?st) = [sample_club]" "entity_status sample_club = Pending"
    by (simp_all add: state_with_def sample_club_def)
  show ?thesis using sample_lookup one two c by (simp add: approved_row_def)
qed

text \<open>
  An approved row stays as it is under a reject and an approve request for its token; a
  pending row is approved by the first request and kept by the second.
\<close>

theorem token_single_use_witness:
  "distinct (map row_id (pending_approvals (db (state_with [approved_row]))))
   \<and> status approved_row \<noteq> Pending
   \<and> pending_approvals (db (process_all
        [(sample_proc_env, decision_request ''reject''), (sample_proc_env, decision_request ''approve'')]
        (state_with [approved_row]))) ! 0 = approved_row
   \<and> find_approval sample_proc_env sample_uuid (db (state_with [sample_row])) = QueryData (Some sample_row)
   \<and> status sample_row = Pending
   \<and> pending_approvals (db (process_all
        [(sample_proc_env, decision_request ''approve''), (sample_proc_env, decision_request ''reject'')]
        (state_with [sample_row]))) = [approved_row]"
proof -
  let ?st = "state_with [approved_row]"
  let ?reqs = "[(sample_proc_env, decision_request ''reject''), (sample_proc_env, decision_request ''approve'')]"
  have d: "distinct (map row_id (pending_approvals (db ?st)))"
    by (simp add: state_with_def)
  have r: "pending_approvals (db ?st) = [approved_row]" by (simp add: state_with_def)
  have s: "status approved_row \<noteq> Pending" by (simp add: approved_row_def)
  note inst = token_single_use[OF d refl refl, of ?reqs sample_proc_env sample_uuid sample_row]
  have keep: "pending_approvals (db (process_all ?reqs ?st)) ! 0 = approved_row"
    using inst s unfolding r by simp
  have live: "status sample_row = Pending"
    using token_single_use[OF _ refl refl, of "state_with [sample_row]" "[]" sample_proc_env sample_uuid sample_row]
      sample_lookup by (simp add: state_with_def)
  have both: "pending_approvals (db (process_all
        [(sample_proc_env, decision_request ''approve''), (sample_proc_env, decision_request ''reject'')]
        (state_with [sample_row]))) = [approved_row]"
    by code_simp
  show ?thesis using d s keep sample_lookup live both by blast
qed


subsection \<open>The AR marker projection\<close>

lemma js_atan2_range: "- pi < js_atan2 y x \<and> js_atan2 y x \<le> pi"
proof -
  have b: "- (pi / 2) < arctan (y / x)" "arctan (y / x) < pi / 2"
    by (rule arctan_lbound, rule arctan_ubound)
  have p: "0 < pi" by (rule pi_gt_zero)
  consider "x > 0" | "x < 0" "y \<ge> 0" | "x < 0" "y < 0" | "x = 0" by linarith
  then show ?thesis
  proof cases
    case 1
    then show ?thesis using b p by (simp add: js_atan2_def)
  next
    case 2
    then have "y / x \<le> 0" by (simp add: divide_nonneg_neg)
    then have "arctan (y / x) \<le> 0" by simp
    then show ?thesis using 2 b p by (simp add: js_atan2_def)
  next
    case 3
    then have "y / x > 0" by (simp add: divide_neg_neg)
    then have "arctan (y / x) > 0" by simp
    then show ?thesis using 3 b p by (simp add: js_atan2_def)
  next
    case 4
    have v: "js_atan2 y x = pi / 2 \<or> js_atan2 y x = - (pi / 2) \<or> js_atan2 y x = 0"
      using 4 by (simp add: js_atan2_def)
    show ?thesis using v p by linarith
  qed
qed

lemma js_mod_range:
  assumes "0 \<le> a" and "0 < b"
  shows "0 \<le> js_mod a b \<and> js_mod a b < b"
proof -
  have q: "0 \<le> a / b" using assms by simp
  have m: "js_mod a b = a - b * of_int \<lfloor>a / b\<rfloor>" using q by (simp add: js_mod_def)
  have lo: "of_int \<lfloor>a / b\<rfloor> \<le> a / b" by (rule of_int_floor_le)
  have hi: "a / b < of_int \<lfloor>a / b\<rfloor> + 1" by linarith
  have e: "b * (a / b) = a" using assms(2) by simp
  have "b * of_int \<lfloor>a / b\<rfloor> \<le> b * (a / b)"
    using lo assms(2) by (intro mult_left_mono) simp_all
  moreover have "b * (a / b) < b * (of_int \<lfloor>a / b\<rfloor> + 1)"
    using hi assms(2) by (intro mult_strict_left_mono) simp_all
  ultimately show ?thesis unfolding m e by (simp add: algebra_simps)
qed

lemma getBearing_range:
  "0 \<le> getBearing lat1 lon1 lat2 lon2 \<and> getBearing lat1 lon1 lat2 lon2 < 360"
proof -
  define t where "t = js_atan2 (sin ((lon2 - lon1) * pi / 180) * cos (lat2 * pi / 180))
     (cos (lat1 * pi / 180) * sin (lat2 * pi / 180)
        - sin (lat1 * pi / 180) * cos (lat2 * pi / 180) * cos ((lon2 - lon1) * pi / 180))"
  have r: "- pi < t" "t \<le> pi" unfolding t_def using js_atan2_range by blast+
  have "- 180 < t * 180 / pi"
    using r(1) pi_gt_zero by (simp add: pos_less_divide_eq)
  then have nn: "0 \<le> t * 180 / pi + 360" by simp
  have "getBearing lat1 lon1 lat2 lon2 = js_mod (t * 180 / pi + 360) 360"
    by (simp add: getBearing_def Let_def t_def)
  then show ?thesis using js_mod_range[OF nn, of 360] by simp
qed

lemma relativeAngle_range:
  "0 \<le> b \<Longrightarrow> b < 360 \<Longrightarrow> 0 \<le> h \<Longrightarrow> h \<le> 360 \<Longrightarrow>
   - 180 \<le> relativeAngle b h \<and> relativeAngle b h \<le> 180"
  by (auto simp: relativeAngle_def Let_def)

text \<open>
  Claim C8. For all real coordinates the bearing lies in \<open>[0, 360)\<close>; and for a heading in
  \<open>[0, 360]\<close> the relative angle, adjusted by 360 at most once, lies in \<open>[-180, 180]\<close>.
\<close>

theorem bearing_and_relative_angle_ranges:
  "0 \<le> getBearing lat1 lon1 lat2 lon2 \<and> getBearing lat1 lon1 lat2 lon2 < 360
   \<and> (0 \<le> heading \<and> heading \<le> 360 \<longrightarrow>
        - 180 \<le> relativeAngle (getBearing lat1 lon1 lat2 lon2) heading
        \<and> relativeAngle (getBearing lat1 lon1 lat2 lon2) heading \<le> 180)"
  using getBearing_range[of lat1 lon1 lat2 lon2] relativeAngle_range by blast

lemma getBearing_same_point: "getBearing 0 0 0 0 = 0"
  by (simp add: getBearing_def js_atan2_def js_mod_def)

lemma getDistance_same_point: "getDistance 0 0 0 0 = 0"
  by (simp add: getDistance_def js_atan2_def)

text \<open>Target at the viewer's own position (bearing 0), heading 300: the relative angle is 60.\<close>

theorem bearing_and_relative_angle_ranges_witness:
  "(0::real) \<le> 300 \<and> (300::real) \<le> 360 \<and> getBearing 0 0 0 0 = 0
   \<and> relativeAngle (getBearing 0 0 0 0) 300 = 60
   \<and> - 180 \<le> relativeAngle (getBearing 0 0 0 0) 300 \<and> relativeAngle (getBearing 0 0 0 0) 300 \<le> 180"
  using bearing_and_relative_angle_ranges[of 0 0 0 0 300]
  by (simp add: getBearing_same_point relativeAngle_def)

text \<open>
  Claim C7. With the viewer's position known, a target whose relative angle is at most 60 in
  absolute value gets a marker position, and one whose relative angle exceeds 60 in absolute
  value gets none.
\<close>

theorem marker_visibility:
  "(\<bar>relativeAngle (getBearing ulat ulon (latitude location) (longitude location)) heading\<bar> \<le> 60 \<longrightarrow>
      getMarkerPosition (Some (ulat, ulon)) heading location =
        Some \<lparr>marker_x = 50 + (relativeAngle (getBearing ulat ulon (latitude location) (longitude location)) heading / 60) * 40,
              marker_y = yPercent (getDistance ulat ulon (latitude location) (longitude location)),
              marker_distance = getDistance ulat ulon (latitude location) (longitude location)\<rparr>)
   \<and> (\<bar>relativeAngle (getBearing ulat ulon (latitude location) (longitude location)) heading\<bar> > 60 \<longrightarrow>
      getMarkerPosition (Some (ulat, ulon)) heading location = None)"
  by (simp add: getMarkerPosition_def Let_def)

text \<open>At a relative angle of exactly 60 the marker is given; at 60.0001 it is not.\<close>

theorem marker_visibility_witness:
  "relativeAngle (getBearing 0 0 (latitude here) (longitude here)) 300 = 60
   \<and> getMarkerPosition (Some (0, 0)) 300 here = Some \<lparr>marker_x = 90, marker_y = 30, marker_distance = 0\<rparr>
   \<and> relativeAngle (getBearing 0 0 (latitude here) (longitude here)) 299.9999 = 60.0001
   \<and> getMarkerPosition (Some (0, 0)) 299.9999 here = None"
proof -
  have l: "latitude here = 0" "longitude here = 0" by (simp_all add: here_def)
  have a: "relativeAngle (getBearing 0 0 (latitude here) (longitude here)) 300 = 60"
    and b: "relativeAngle (getBearing 0 0 (latitude here) (longitude here)) 299.9999 = 60.0001"
    by (simp_all add: l getBearing_same_point relativeAngle_def)
  have y: "yPercent (getDistance 0 0 (latitude here) (longitude here)) = 30"
    by (simp add: l getDistance_same_point yPercent_def)
  have v: "getMarkerPosition (Some (0, 0)) 300 here = Some \<lparr>marker_x = 90, marker_y = 30, marker_distance = 0\<rparr>"
    using marker_visibility[of 0 0 here 300] a y by (simp add: l getDistance_same_point)
  have h: "getMarkerPosition (Some (0, 0)) 299.9999 here = None"
    using marker_visibility[of 0 0 here "299.9999"] b by simp
  show ?thesis using a b v h by blast
qed

lemma js_atan2_sin_cos:
  assumes "0 < q" and "q < pi / 2"
  shows "js_atan2 (sqrt (sin q * sin q)) (sqrt (1 - sin q * sin q)) = q"
proof -
  have s: "0 < sin q" using assms pi_gt_zero by (intro sin_gt_zero) linarith+
  have c: "0 < cos q" using assms by (intro cos_gt_zero_pi) linarith+
  have "1 - sin q * sin q = cos q * cos q"
    using sin_cos_squared_add[of q] by (simp add: power2_eq_square algebra_simps)
  then have c2: "sqrt (1 - sin q * sin q) = cos q" using c by simp
  have s2: "sqrt (sin q * sin q) = sin q" using s by simp
  have "arctan (sin q / cos q) = q"
    using arctan_tan[of q] assms by (simp add: tan_def)
  then have "js_atan2 (sin q) (cos q) = q" using c by (simp add: js_atan2_def)
  then show ?thesis by (simp only: s2 c2)
qed

lemma getDistance_north: "getDistance 0 0 (latitude north) (longitude north) = 127.42 * pi"
proof -
  define q where "q = pi / 100000"
  have q: "0 < q" "q < pi / 2" using pi_gt_zero by (simp_all add: q_def)
  have "getDistance 0 0 (latitude north) (longitude north)
          = 6371000 * (2 * js_atan2 (sqrt (sin q * sin q)) (sqrt (1 - sin q * sin q)))"
    by (simp add: getDistance_def Let_def q_def north_def)
  also have "\<dots> = 6371000 * (2 * q)" by (simp only: js_atan2_sin_cos[OF q])
  also have "\<dots> = 127.42 * pi" by (simp add: q_def)
  finally show ?thesis .
qed

lemma getBearing_north: "getBearing 0 0 (latitude north) (longitude north) = 0"
proof -
  have "0 < sin (pi / 50000)"
    using pi_gt_zero by (intro sin_gt_zero) simp_all
  then show ?thesis
    by (simp add: getBearing_def Let_def js_atan2_def js_mod_def north_def)
qed

text \<open>The vertical position grows with the distance.\<close>

lemma yPercent_mono: "d1 \<le> d2 \<Longrightarrow> yPercent d1 \<le> yPercent d2"
  by (simp add: yPercent_def Let_def min_def max_def)

text \<open>
  Claim C9. The vertical position is \<open>clamp(30 + (distance / 500) * 40, 20, 80)\<close>, by the
  definition of \<open>yPercent\<close>. The viewer at \<open>(0, 0)\<close> facing north sees the target at its own
  position (distance 0) at \<open>y = 30\<close> and the target 0.0036 degrees to the north (about 400 m)
  at \<open>y = 30 + 10.1936 \<pi>\<close>, about 62: with \<open>top: y%\<close> the nearer target is drawn higher on the
  screen, not lower.
\<close>

theorem nearer_marker_is_higher:
  "getMarkerPosition (Some (0, 0)) 0 here = Some \<lparr>marker_x = 50, marker_y = 30, marker_distance = 0\<rparr>
   \<and> getMarkerPosition (Some (0, 0)) 0 north
       = Some \<lparr>marker_x = 50, marker_y = 30 + 10.1936 * pi, marker_distance = 127.42 * pi\<rparr>
   \<and> (0 :: real) < 127.42 * pi
   \<and> \<not> ((30 :: real) \<ge> 30 + 10.1936 * pi)"
proof -
  have p: "0 < pi" "pi < 4" using pi_gt_zero pi_less_4 by simp_all
  have a: "getMarkerPosition (Some (0, 0)) 0 here = Some \<lparr>marker_x = 50, marker_y = 30, marker_distance = 0\<rparr>"
    by (simp add: getMarkerPosition_def Let_def here_def getBearing_same_point getDistance_same_point
        relativeAngle_def yPercent_def)
  have y: "yPercent (127.42 * pi) = 30 + 10.1936 * pi"
    using p by (simp add: yPercent_def Let_def min_def max_def)
  have b: "getMarkerPosition (Some (0, 0)) 0 north
       = Some \<lparr>marker_x = 50, marker_y = 30 + 10.1936 * pi, marker_distance = 127.42 * pi\<rparr>"
  proof -
    have yd: "yPercent (getDistance 0 0 (latitude north) (longitude north)) = 30 + 10.1936 * pi"
      using y by (simp only: getDistance_north)
    show ?thesis
      by (simp add: getMarkerPosition_def Let_def getBearing_north yd relativeAngle_def)
         (simp add: getDistance_north)
  qed
  have c: "(0 :: real) < 127.42 * pi" "\<not> ((30 :: real) \<ge> 30 + 10.1936 * pi)"
    using pi_gt_zero by (simp_all add: not_le)
  show ?thesis using a b c by blast
qed


end
